theory Spec2Isabelle
  imports Main
begin

section \<open>Strings, paths and errors\<close>

type_synonym path = string
type_synonym bytes = string

text \<open>
  Every \<^verbatim>\<open>throw new Error(msg)\<close> of the sources is \<open>Error msg\<close>. \<open>TypeError\<close> is what
  JavaScript raises when a property of \<^verbatim>\<open>undefined\<close> is read, \<open>ENOENT\<close> and \<open>EISDIR\<close>
  are the failures of the file-system calls, and \<open>External\<close> is a failure raised inside a
  collaborator that is not part of the sources (download, unpack tool, version comparison).
\<close>

datatype error =
    Error string
  | TypeError string
  | ENOENT path
  | EISDIR path
  | External string

text \<open>The ECMAScript string operations the sources use, on character lists.\<close>

definition startsWith :: "string \<Rightarrow> string \<Rightarrow> bool" where
  "startsWith s p = (take (length p) s = p)"

fun indexOf :: "string \<Rightarrow> string \<Rightarrow> nat option" where
  "indexOf [] p = (if p = [] then Some 0 else None)"
| "indexOf (c # cs) p =
     (if startsWith (c # cs) p then Some 0 else map_option Suc (indexOf cs p))"

definition includes_str :: "string \<Rightarrow> string \<Rightarrow> bool" where
  "includes_str s p = (indexOf s p \<noteq> None)"

text \<open>\<^verbatim>\<open>s.replace(p, r)\<close> with a string pattern replaces the first occurrence only.\<close>

definition replace :: "string \<Rightarrow> string \<Rightarrow> string \<Rightarrow> string" where
  "replace s p r =
     (case indexOf s p of
        None \<Rightarrow> s
      | Some i \<Rightarrow> take i s @ r @ drop (i + length p) s)"


text \<open>
  Node's \<^verbatim>\<open>path.join\<close>, \<^verbatim>\<open>basename\<close> and \<^verbatim>\<open>dirname\<close> on POSIX paths that are already
  normalised (no \<^verbatim>\<open>.\<close>, \<^verbatim>\<open>..\<close> or doubled separators): \<open>join\<close> puts one separator
  between its segments and skips an empty segment.
\<close>

definition join :: "path \<Rightarrow> path \<Rightarrow> path" where
  "join a b = (if b = [] then a else if a = [] then b else a @ ''/'' @ b)"

definition basename :: "path \<Rightarrow> string" where
  "basename p = rev (takeWhile (\<lambda>c. c \<noteq> CHR ''/'') (rev p))"

definition dirname :: "path \<Rightarrow> path" where
  "dirname p = rev (drop 1 (dropWhile (\<lambda>c. c \<noteq> CHR ''/'') (rev p)))"

text \<open>\<^verbatim>\<open>xs.join(sep)\<close> of an array of strings.\<close>

fun join_with :: "string \<Rightarrow> string list \<Rightarrow> string" where
  "join_with sep [] = []"
| "join_with sep [x] = x"
| "join_with sep (x # y # ys) = x @ sep @ join_with sep (y # ys)"

text \<open>How a template literal prints a value that may be \<^verbatim>\<open>undefined\<close>.\<close>

definition template :: "string option \<Rightarrow> string" where
  "template v = (case v of None \<Rightarrow> ''undefined'' | Some s \<Rightarrow> s)"

section \<open>Game versions and the version utilities\<close>

text \<open>
  Modelled from the spec: the class \<^verbatim>\<open>MinecraftVersion\<close> is not among the sources. The
  spec gives it as a structured semantic version (major.minor.patch) with an ordering;
  \<open>toString\<close> is the text it prints as.
\<close>

record MinecraftVersion =
  getMajor :: nat
  getMinor :: nat
  getRevision :: nat
  toString :: string

definition isGreaterThanOrEqualTo :: "MinecraftVersion \<Rightarrow> MinecraftVersion \<Rightarrow> bool" where
  "isGreaterThanOrEqualTo a b =
     (getMajor b < getMajor a
      \<or> (getMajor a = getMajor b
          \<and> (getMinor b < getMinor a
              \<or> (getMinor a = getMinor b \<and> getRevision b \<le> getRevision a))))"

text \<open>
  \<^verbatim>\<open>VersionUtil\<close> is not among the sources, so its three functions are parameters of the
  model. \<open>versionGte\<close> is called by the security gate with a minimum that can be
  \<^verbatim>\<open>undefined\<close> (\<open>None\<close>), and whether it throws there is its own business: it answers
  an error or a boolean.
\<close>

record VersionUtil =
  isVersionAcceptable :: "MinecraftVersion \<Rightarrow> nat list \<Rightarrow> bool"
  isOneDotTwelveFG2 :: "string \<Rightarrow> bool"
  versionGte :: "string \<Rightarrow> string option \<Rightarrow> error + bool"

section \<open>The version predicates of the two strategies\<close>

definition NeoForgeGradle2Adapter_isForVersion ::
  "VersionUtil \<Rightarrow> MinecraftVersion \<Rightarrow> string \<Rightarrow> bool" where
  "NeoForgeGradle2Adapter_isForVersion vu version libraryVersion =
     (if getMinor version = 12 \<and> \<not> isOneDotTwelveFG2 vu libraryVersion then False
      else isVersionAcceptable vu version [7, 8, 9, 10, 11, 12])"

definition NeoForgeGradle3Adapter_isForVersion ::
  "VersionUtil \<Rightarrow> MinecraftVersion \<Rightarrow> string \<Rightarrow> bool" where
  "NeoForgeGradle3Adapter_isForVersion vu version libraryVersion =
     (if getMinor version = 12 \<and> isOneDotTwelveFG2 vu libraryVersion then False
      else isVersionAcceptable vu version [12, 13, 14, 15, 16, 17, 18, 19, 20, 21])"

definition isExecutableJar :: "MinecraftVersion \<Rightarrow> bool" where
  "isExecutableJar version =
     isGreaterThanOrEqualTo version
       \<lparr>getMajor = 1, getMinor = 20, getRevision = 3, toString = ''1.20.3''\<rparr>"

section \<open>The security gate of the resolver base\<close>

text \<open>What the gate does to the console: error lines of the logger, and the busy wait.\<close>

datatype console = LoggerError string | BusyWait nat

definition patchMatrix :: "nat \<Rightarrow> string option" where
  "patchMatrix k = map_of [(21, ''21.1.123''), (20, ''47.1.106'')] k"

definition isVulnerable :: "nat \<Rightarrow> nat \<Rightarrow> bool" where
  "isVulnerable major minor = (major = 1 \<and> (minor \<le> 18 \<and> 12 \<le> minor))"

definition hasPatch :: "nat \<Rightarrow> nat \<Rightarrow> bool" where
  "hasPatch major minor = (major = 1 \<and> 12 \<le> minor)"

definition advisory :: "nat \<Rightarrow> nat \<Rightarrow> console list" where
  "advisory major minor =
     [LoggerError ''=================================================================='',
      LoggerError ''                           WARNING                                '',
      LoggerError '' This version of NeoForge is vulnerable to a CRITICAL RCE exploit. '',
      LoggerError ''                    DO NOT USE THIS VERSION!                      '',
      (if hasPatch major minor
       then LoggerError (''   A patch is available as of Minecraft NeoForge v''
                          @ template (patchMatrix minor) @ ''      '')
       else LoggerError ''         There is no patch available for this version.            ''),
      LoggerError ''=================================================================='',
      LoggerError ''To abort, use CTRL + C.'',
      LoggerError ''Nebula will proceed in 15 seconds..'',
      BusyWait (15 * 1000)]"

text \<open>
  \<open>unsafe\<close> is the local variable of \<^verbatim>\<open>checkSecurity\<close>: it stays \<^verbatim>\<open>undefined\<close>
  (\<open>None\<close>) for a game version outside the vulnerable range.
\<close>

definition unsafe :: "VersionUtil \<Rightarrow> MinecraftVersion \<Rightarrow> string \<Rightarrow> error + bool option" where
  "unsafe vu minecraftVersion neoforgeVersion =
     (let major = getMajor minecraftVersion; minor = getMinor minecraftVersion in
      if isVulnerable major minor then
        (if hasPatch major minor then
           (case versionGte vu neoforgeVersion (patchMatrix minor) of
              Inl e \<Rightarrow> Inl e
            | Inr b \<Rightarrow> Inr (Some (\<not> b)))
         else Inr (Some True))
      else Inr None)"

definition checkSecurity :: "VersionUtil \<Rightarrow> MinecraftVersion \<Rightarrow> string \<Rightarrow> error + console list" where
  "checkSecurity vu minecraftVersion neoforgeVersion =
     (case unsafe vu minecraftVersion neoforgeVersion of
        Inl e \<Rightarrow> Inl e
      | Inr u \<Rightarrow>
          Inr (if u = Some True
               then advisory (getMajor minecraftVersion) (getMinor minecraftVersion)
               else []))"

section \<open>The file system and the external collaborators\<close>

text \<open>
  The file system is a map from paths to nodes. The world of a run is the file system
  together with the trace of the calls that leave the process: downloads, the installer
  and the unpack tool.
\<close>

datatype node = File bytes | Dir

type_synonym filesystem = "path \<Rightarrow> node option"

datatype request =
    ByComponents string string string "string option" string string
  | ById string string string
  | Direct string string

datatype event =
    Download request
  | Installer path
  | ExtractUnpack "path list"

record world =
  fs :: filesystem
  trace :: "event list"

text \<open>
  An asynchronous step either rejects with an error or resolves with a value; in both cases
  the world it leaves behind is part of the result.
\<close>

type_synonym 'a io = "world \<Rightarrow> (error + 'a) \<times> world"

definition ret :: "'a \<Rightarrow> 'a io" where
  "ret x w = (Inr x, w)"

definition throw :: "error \<Rightarrow> 'a io" where
  "throw e w = (Inl e, w)"

definition bind_io :: "'a io \<Rightarrow> ('a \<Rightarrow> 'b io) \<Rightarrow> 'b io" where
  "bind_io m k w = (case m w of (Inl e, w') \<Rightarrow> (Inl e, w') | (Inr x, w') \<Rightarrow> k x w')"

text \<open>
  \<^verbatim>\<open>fs-extra\<close> and \<^verbatim>\<open>fs/promises\<close>. \<open>under d p\<close>: the path \<open>p\<close> lies below the
  directory \<open>d\<close>. \<open>remove\<close> deletes a file, or a directory with everything below it, and
  does nothing when the path does not exist. \<open>copy\<close> overwrites its destination.
  Directories are entered by \<open>mkdirs\<close> and by copying a directory; the parent
  directories of a file are not tracked, so no write fails for a missing parent.
\<close>

definition under :: "path \<Rightarrow> path \<Rightarrow> bool" where
  "under d p = (startsWith p (d @ ''/'') \<and> length d + 1 < length p)"

definition pathExists :: "path \<Rightarrow> bool io" where
  "pathExists p w = (Inr (fs w p \<noteq> None), w)"

definition readFile :: "path \<Rightarrow> bytes io" where
  "readFile p w =
     (case fs w p of
        None \<Rightarrow> (Inl (ENOENT p), w)
      | Some Dir \<Rightarrow> (Inl (EISDIR p), w)
      | Some (File b) \<Rightarrow> (Inr b, w))"

text \<open>\<^verbatim>\<open>lstat\<close>: only the size of the result is read (by the descriptor builder).\<close>

definition lstat :: "path \<Rightarrow> nat io" where
  "lstat p w =
     (case fs w p of
        None \<Rightarrow> (Inl (ENOENT p), w)
      | Some Dir \<Rightarrow> (Inr 0, w)
      | Some (File b) \<Rightarrow> (Inr (length b), w))"

definition remove :: "path \<Rightarrow> unit io" where
  "remove d w = (Inr (), w\<lparr>fs := (\<lambda>p. if p = d \<or> under d p then None else fs w p)\<rparr>)"

definition mkdirs :: "path \<Rightarrow> unit io" where
  "mkdirs d w =
     (case fs w d of
        None \<Rightarrow> (Inr (), w\<lparr>fs := (fs w)(d \<mapsto> Dir)\<rparr>)
      | Some Dir \<Rightarrow> (Inr (), w)
      | Some (File b) \<Rightarrow> (Inl (External ''EEXIST''), w))"

definition writeFile :: "path \<Rightarrow> bytes \<Rightarrow> unit io" where
  "writeFile p b w =
     (case fs w p of
        Some Dir \<Rightarrow> (Inl (EISDIR p), w)
      | _ \<Rightarrow> (Inr (), w\<lparr>fs := (fs w)(p \<mapsto> File b)\<rparr>))"

definition copy :: "path \<Rightarrow> path \<Rightarrow> unit io" where
  "copy src dst w =
     (case fs w src of
        None \<Rightarrow> (Inl (ENOENT src), w)
      | Some (File b) \<Rightarrow> (Inr (), w\<lparr>fs := (fs w)(dst \<mapsto> File b)\<rparr>)
      | Some Dir \<Rightarrow>
          (Inr (), w\<lparr>fs := (\<lambda>p. if p = dst then Some Dir
                               else if under dst p
                               then (case fs w (src @ drop (length dst) p) of
                                       None \<Rightarrow> fs w p
                                     | Some n \<Rightarrow> Some n)
                               else fs w p)\<rparr>))"

text \<open>
  \<^verbatim>\<open>MavenUtil\<close>, \<^verbatim>\<open>LibRepoStructure\<close>, \<^verbatim>\<open>VersionRepoStructure\<close> and \<^verbatim>\<open>RepoStructure\<close>
  are not among the sources: their constants and functions are parameters. A version
  argument is optional because the resolver passes its \<^verbatim>\<open>artifactVersion\<close> field, see
  below. What a download, the installer and the unpack tool do to the file system is a
  parameter as well; the trace entry of the call is written by the model.
\<close>

record MavenComponents =
  mc_group :: string
  mc_artifact :: string
  mc_version :: string
  mc_classifier :: "string option"
  mc_extension :: "string option"

record MavenUtil =
  mavenComponentsToIdentifier ::
    "string \<Rightarrow> string \<Rightarrow> string option \<Rightarrow> string option \<Rightarrow> string option \<Rightarrow> string"
  mavenComponentsAsNormalizedPath ::
    "string \<Rightarrow> string \<Rightarrow> string option \<Rightarrow> string option \<Rightarrow> path"
  getMavenComponents :: "string \<Rightarrow> error + MavenComponents"

record LibRepoStructure =
  NEOFORGE_GROUP :: string
  NEOFORGE_ARTIFACT :: string
  NEOFMLCORE_ARTIFACT :: string
  FMLCORE_ARTIFACT :: string
  JAVAFMLLANGUAGE_ARTIFACT :: string
  MCLANGUAGE_ARTIFACT :: string
  LOWCODELANGUAGE_ARTIFACT :: string
  MINECRAFT_GROUP :: string
  MINECRAFT_CLIENT_ARTIFACT :: string
  getLocalNeoForge :: "string option \<Rightarrow> string \<Rightarrow> path"
  getArtifactById :: "string \<Rightarrow> string \<Rightarrow> path"
  getArtifactByComponents ::
    "string \<Rightarrow> string \<Rightarrow> string option \<Rightarrow> string option \<Rightarrow> string option \<Rightarrow> path"
  getArtifactUrlByComponents ::
    "string \<Rightarrow> string \<Rightarrow> string \<Rightarrow> string option \<Rightarrow> string option \<Rightarrow> string option \<Rightarrow> string"
  headArtifactById :: "string \<Rightarrow> string \<Rightarrow> string \<Rightarrow> error + bool"
  downloaded :: "request \<Rightarrow> filesystem \<Rightarrow> error + filesystem"

record VersionRepoStructure =
  getFileName :: "MinecraftVersion \<Rightarrow> string \<Rightarrow> string"
  getVersionManifest :: "MinecraftVersion \<Rightarrow> string \<Rightarrow> path"
  getVersionManifestURL :: "string \<Rightarrow> MinecraftVersion \<Rightarrow> string \<Rightarrow> string"

section \<open>Manifests, modules and the resolver\<close>

text \<open>
  The fields of the two manifest formats that the resolvers read. In the newer format a
  library record carries \<^verbatim>\<open>downloads.artifact\<close> with a path, a URL and a SHA-1; in the
  legacy format it carries an optional URL and an optional list of checksums.
\<close>

record LibraryArtifactFG3 =
  la_path :: string
  la_url :: string
  la_sha1 :: string

record LibraryFG3 =
  lib3_name :: string
  downloads_artifact :: LibraryArtifactFG3

record VersionManifestFG3 =
  libraries3 :: "LibraryFG3 list"
  arguments_game :: "string list"

record LibraryFG2 =
  lib2_name :: string
  lib2_url :: "string option"
  checksums :: "string list option"

record VersionManifestFG2 =
  libraries2 :: "LibraryFG2 list"

text \<open>
  Hashing, the zip reader, JSON, the installer process and the unpack tool are outside
  the repository: parameters. \<open>parseFG2\<close> and \<open>parseFG3\<close> answer \<open>None\<close> where
  \<^verbatim>\<open>JSON.parse\<close> throws.
\<close>

record platform =
  sha1 :: "bytes \<Rightarrow> string"
  md5 :: "bytes \<Rightarrow> string"
  entryDataSync :: "bytes \<Rightarrow> string \<Rightarrow> bytes option"
  parseFG2 :: "bytes \<Rightarrow> VersionManifestFG2 option"
  parseFG3 :: "bytes \<Rightarrow> VersionManifestFG3 option"
  stringify :: "VersionManifestFG3 \<Rightarrow> bytes"
  installed :: "path \<Rightarrow> filesystem \<Rightarrow> filesystem"
  unpacked :: "path list \<Rightarrow> filesystem \<Rightarrow> error + filesystem"

record env =
  versionUtil :: VersionUtil
  mavenUtil :: MavenUtil
  libRepo :: LibRepoStructure
  versionRepo :: VersionRepoStructure
  getTempDirectory :: path
  getNeoForgeCacheDirectory :: "string option \<Rightarrow> path"
  platform :: platform

text \<open>The three download calls of the library repository, and its existence check.\<close>

definition download :: "env \<Rightarrow> request \<Rightarrow> unit io" where
  "download E r w =
     (let w' = w\<lparr>trace := trace w @ [Download r]\<rparr> in
      case downloaded (libRepo E) r (fs w') of
        Inl e \<Rightarrow> (Inl e, w')
      | Inr f \<Rightarrow> (Inr (), w'\<lparr>fs := f\<rparr>))"

definition downloadArtifactByComponents ::
  "env \<Rightarrow> string \<Rightarrow> string \<Rightarrow> string \<Rightarrow> string option \<Rightarrow> string \<Rightarrow> string \<Rightarrow> unit io" where
  "downloadArtifactByComponents E u g a v c e = download E (ByComponents u g a v c e)"

definition downloadArtifactById :: "env \<Rightarrow> string \<Rightarrow> string \<Rightarrow> string \<Rightarrow> unit io" where
  "downloadArtifactById E u i e = download E (ById u i e)"

definition downloadArtifactDirect :: "env \<Rightarrow> string \<Rightarrow> string \<Rightarrow> unit io" where
  "downloadArtifactDirect E u p = download E (Direct u p)"

text \<open>
  Modelled from the spec: \<^verbatim>\<open>LibRepoStructure.artifactExists\<close> is not among the sources;
  the spec gives it as \<^verbatim>\<open>exists(path) bool\<close> of the artifact store.
\<close>

definition artifactExists :: "path \<Rightarrow> bool io" where
  "artifactExists p = pathExists p"

datatype Type = NeoForgeHosted | Library | VersionManifest

record Artifact =
  art_size :: nat
  MD5 :: string
  art_url :: string

text \<open>
  A module of the output tree. \<open>mod_classpath\<close> and \<open>subModules\<close> are optional fields of
  the distribution's \<^verbatim>\<open>Module\<close> type: \<open>None\<close> is a field the object literal does not set.
  \<open>mod_id\<close> is optional because the version-manifest module takes the resolver's
  \<^verbatim>\<open>artifactVersion\<close> as its id.
\<close>

datatype Module =
  Module (mod_id: "string option") (mod_name: string) (mod_type: Type)
    (mod_classpath: "bool option") (mod_artifact: Artifact)
    (subModules: "Module list option")

definition set_type :: "Type \<Rightarrow> Module \<Rightarrow> Module" where
  "set_type t m =
     Module (mod_id m) (mod_name m) t (mod_classpath m) (mod_artifact m) (subModules m)"

definition set_subModules :: "Module list option \<Rightarrow> Module \<Rightarrow> Module" where
  "set_subModules ms m =
     Module (mod_id m) (mod_name m) (mod_type m) (mod_classpath m) (mod_artifact m) ms"


text \<open>
  Modelled from the spec: \<^verbatim>\<open>BaseResolver.generateArtifact\<close> is not among the sources. The
  spec's descriptor builder takes bytes, file-system metadata and a URL and answers the
  descriptor (size, checksum, source URL).
\<close>

definition generateArtifact :: "env \<Rightarrow> bytes \<Rightarrow> nat \<Rightarrow> string \<Rightarrow> Artifact" where
  "generateArtifact E buf stats u =
     \<lparr>art_size = stats, MD5 = md5 (platform E) buf, art_url = u\<rparr>"

record GeneratedFile =
  gf_name :: string
  gf_group :: string
  gf_artifact :: string
  gf_version :: "string option"
  classifiers :: "string option list"
  skipIfNotPresent :: "bool option"
  classpath :: "bool option"

text \<open>
  The fields of a resolver. \<^verbatim>\<open>artifactVersion\<close> is declared on \<^verbatim>\<open>NeoForgeResolver\<close>
  under a \<^verbatim>\<open>@ts-ignore\<close> and no constructor among the sources assigns it, so a resolver
  that the constructors build holds \<^verbatim>\<open>undefined\<close> there (\<open>None\<close>); the functions below
  take the resolver as a parameter and so cover any value of the field.
\<close>

record NeoForgeResolver =
  absoluteRoot :: string
  relativeRoot :: string
  baseUrl :: string
  minecraftVersion :: MinecraftVersion
  neoforgeVersion :: string
  discardOutput :: bool
  invalidateCache :: bool
  artifactVersion :: "string option"

record NeoForgeGradle3 = NeoForgeResolver +
  generatedFiles :: "GeneratedFile list option"
  wildcardsInUse :: "string list option"

definition MOJANG_REMOTE_REPOSITORY :: string where
  "MOJANG_REMOTE_REPOSITORY = ''https://libraries.minecraft.net/''"

definition REMOTE_REPOSITORY :: string where
  "REMOTE_REPOSITORY = ''https://maven.neoforge.net/''"

definition WILDCARD_MCP_VERSION :: string where
  "WILDCARD_MCP_VERSION = ''${mcpVersion}''"

text \<open>
  The constructor of the resolver base: it stores its arguments and runs the security
  gate, whose error (if the version comparison throws) leaves the constructor.
\<close>

definition NeoForgeResolver_new ::
  "env \<Rightarrow> string \<Rightarrow> string \<Rightarrow> string \<Rightarrow> MinecraftVersion \<Rightarrow> string \<Rightarrow> bool \<Rightarrow> bool
   \<Rightarrow> error + NeoForgeResolver \<times> console list" where
  "NeoForgeResolver_new E absRoot relRoot url mcVersion nfVersion discard invalidate =
     (case checkSecurity (versionUtil E) mcVersion nfVersion of
        Inl e \<Rightarrow> Inl e
      | Inr out \<Rightarrow>
          Inr (\<lparr>absoluteRoot = absRoot, relativeRoot = relRoot, baseUrl = url,
                minecraftVersion = mcVersion, neoforgeVersion = nfVersion,
                discardOutput = discard, invalidateCache = invalidate,
                artifactVersion = None\<rparr>, out))"

section \<open>The expected-file tables of the installer-mediated strategy\<close>

definition configure :: "env \<Rightarrow> NeoForgeGradle3 \<Rightarrow> NeoForgeGradle3" where
  "configure E this =
     (let lr = libRepo E; vu = versionUtil E; mv = minecraftVersion this;
          av = artifactVersion this in
      if isExecutableJar mv then
        this\<lparr>generatedFiles := Some
          [\<lparr>gf_name = ''universal jar'', gf_group = NEOFORGE_GROUP lr,
             gf_artifact = NEOFORGE_ARTIFACT lr, gf_version = av,
             classifiers = [Some ''universal''], skipIfNotPresent = None, classpath = None\<rparr>,
           \<lparr>gf_name = ''client jar'', gf_group = NEOFORGE_GROUP lr,
             gf_artifact = NEOFORGE_ARTIFACT lr, gf_version = av,
             classifiers = [Some ''client''], skipIfNotPresent = None, classpath = None\<rparr>,
           \<lparr>gf_name = ''client shim'', gf_group = NEOFORGE_GROUP lr,
             gf_artifact = NEOFORGE_ARTIFACT lr, gf_version = av,
             classifiers = [Some ''shim''], skipIfNotPresent = None, classpath = Some False\<rparr>,
           \<lparr>gf_name = ''fmlcore'', gf_group = NEOFORGE_GROUP lr,
             gf_artifact = NEOFMLCORE_ARTIFACT lr, gf_version = av,
             classifiers = [None], skipIfNotPresent = None, classpath = None\<rparr>,
           \<lparr>gf_name = ''javafmllanguage'', gf_group = NEOFORGE_GROUP lr,
             gf_artifact = JAVAFMLLANGUAGE_ARTIFACT lr, gf_version = av,
             classifiers = [None], skipIfNotPresent = None, classpath = None\<rparr>,
           \<lparr>gf_name = ''mclanguage'', gf_group = NEOFORGE_GROUP lr,
             gf_artifact = MCLANGUAGE_ARTIFACT lr, gf_version = av,
             classifiers = [None], skipIfNotPresent = None, classpath = None\<rparr>,
           \<lparr>gf_name = ''lowcodelanguage'', gf_group = NEOFORGE_GROUP lr,
             gf_artifact = LOWCODELANGUAGE_ARTIFACT lr, gf_version = av,
             classifiers = [None], skipIfNotPresent = None, classpath = None\<rparr>]\<rparr>
      else if isVersionAcceptable vu mv [19, 20] then
        (let mcpUnifiedVersion = toString mv @ ''-'' @ WILDCARD_MCP_VERSION;
             base =
               [\<lparr>gf_name = ''universal jar'', gf_group = NEOFORGE_GROUP lr,
                  gf_artifact = NEOFORGE_ARTIFACT lr, gf_version = av,
                  classifiers = [Some ''universal''], skipIfNotPresent = None,
                  classpath = Some False\<rparr>,
                \<lparr>gf_name = ''client jar'', gf_group = NEOFORGE_GROUP lr,
                  gf_artifact = NEOFORGE_ARTIFACT lr, gf_version = av,
                  classifiers = [Some ''client''], skipIfNotPresent = None,
                  classpath = Some False\<rparr>,
                \<lparr>gf_name = ''client data'', gf_group = MINECRAFT_GROUP lr,
                  gf_artifact = MINECRAFT_CLIENT_ARTIFACT lr, gf_version = Some (toString mv),
                  classifiers = [Some ''data''], skipIfNotPresent = Some True,
                  classpath = Some False\<rparr>,
                \<lparr>gf_name = ''client srg'', gf_group = MINECRAFT_GROUP lr,
                  gf_artifact = MINECRAFT_CLIENT_ARTIFACT lr,
                  gf_version = Some mcpUnifiedVersion,
                  classifiers = [Some ''srg''], skipIfNotPresent = None,
                  classpath = Some False\<rparr>];
             since17 =
               (if isVersionAcceptable vu mv [17, 18, 19, 20] then
                  [\<lparr>gf_name = ''fmlcore'', gf_group = NEOFORGE_GROUP lr,
                     gf_artifact = FMLCORE_ARTIFACT lr, gf_version = av,
                     classifiers = [None], skipIfNotPresent = None, classpath = None\<rparr>,
                   \<lparr>gf_name = ''javafmllanguage'', gf_group = NEOFORGE_GROUP lr,
                     gf_artifact = JAVAFMLLANGUAGE_ARTIFACT lr, gf_version = av,
                     classifiers = [None], skipIfNotPresent = None, classpath = None\<rparr>,
                   \<lparr>gf_name = ''mclanguage'', gf_group = NEOFORGE_GROUP lr,
                     gf_artifact = MCLANGUAGE_ARTIFACT lr, gf_version = av,
                     classifiers = [None], skipIfNotPresent = None, classpath = None\<rparr>]
                  @ base
                else base);
             since18 =
               (if isVersionAcceptable vu mv [18, 19, 20] then
                  [\<lparr>gf_name = ''lowcodelanguage'', gf_group = NEOFORGE_GROUP lr,
                     gf_artifact = LOWCODELANGUAGE_ARTIFACT lr, gf_version = av,
                     classifiers = [None], skipIfNotPresent = None, classpath = None\<rparr>]
                  @ since17
                else
                  since17 @
                  [\<lparr>gf_name = ''client slim'', gf_group = MINECRAFT_GROUP lr,
                     gf_artifact = MINECRAFT_CLIENT_ARTIFACT lr,
                     gf_version = Some mcpUnifiedVersion,
                     classifiers = [Some ''slim'', Some ''slim-stable''],
                     skipIfNotPresent = None, classpath = Some False\<rparr>,
                   \<lparr>gf_name = ''client extra'', gf_group = MINECRAFT_GROUP lr,
                     gf_artifact = MINECRAFT_CLIENT_ARTIFACT lr,
                     gf_version = Some mcpUnifiedVersion,
                     classifiers = [Some ''extra'', Some ''extra-stable''],
                     skipIfNotPresent = None, classpath = Some False\<rparr>])
         in this\<lparr>generatedFiles := Some since18,
                 wildcardsInUse := Some [WILDCARD_MCP_VERSION]\<rparr>)
      else this)"

section \<open>The strategy registry\<close>

datatype impl = NeoForgeGradle2Adapter | NeoForgeGradle3Adapter

datatype resolver = Gradle2 NeoForgeResolver | Gradle3 NeoForgeGradle3

definition NEOFORGE_ADAPTER_IMPL :: "impl list" where
  "NEOFORGE_ADAPTER_IMPL = [NeoForgeGradle2Adapter, NeoForgeGradle3Adapter]"

fun isForVersion :: "VersionUtil \<Rightarrow> impl \<Rightarrow> MinecraftVersion \<Rightarrow> string \<Rightarrow> bool" where
  "isForVersion vu NeoForgeGradle2Adapter v lv = NeoForgeGradle2Adapter_isForVersion vu v lv"
| "isForVersion vu NeoForgeGradle3Adapter v lv = NeoForgeGradle3Adapter_isForVersion vu v lv"

text \<open>
  \<^verbatim>\<open>new impl(absoluteRoot, relativeRoot, baseURL, minecraftVersion, neoforgeVersion,
  discardOutput, invalidateCache)\<close>: the second strategy's constructor runs \<open>configure\<close>
  after the base constructor, with its two fields still unset.
\<close>

fun new ::
  "env \<Rightarrow> impl \<Rightarrow> string \<Rightarrow> string \<Rightarrow> string \<Rightarrow> MinecraftVersion \<Rightarrow> string \<Rightarrow> bool \<Rightarrow> bool
   \<Rightarrow> error + resolver \<times> console list" where
  "new E NeoForgeGradle2Adapter absRoot relRoot url mv nv discard invalidate =
     (case NeoForgeResolver_new E absRoot relRoot url mv nv discard invalidate of
        Inl e \<Rightarrow> Inl e
      | Inr (base, out) \<Rightarrow> Inr (Gradle2 base, out))"
| "new E NeoForgeGradle3Adapter absRoot relRoot url mv nv discard invalidate =
     (case NeoForgeResolver_new E absRoot relRoot url mv nv discard invalidate of
        Inl e \<Rightarrow> Inl e
      | Inr (base, out) \<Rightarrow>
          Inr (Gradle3 (configure E
                 (NeoForgeResolver.extend base
                    \<lparr>generatedFiles = None, wildcardsInUse = None\<rparr>)), out))"

text \<open>
  The loop of \<^verbatim>\<open>getNeoForgeResolver\<close> over the table, and the function itself on the
  static table.
\<close>

fun resolverLoop ::
  "env \<Rightarrow> impl list \<Rightarrow> MinecraftVersion \<Rightarrow> string \<Rightarrow> string \<Rightarrow> string \<Rightarrow> string \<Rightarrow> bool \<Rightarrow> bool
   \<Rightarrow> error + resolver \<times> console list" where
  "resolverLoop E [] mv nv absRoot relRoot url discard invalidate =
     Inl (Error (''No forge resolver found for Minecraft '' @ toString mv @ ''!''))"
| "resolverLoop E (i # rest) mv nv absRoot relRoot url discard invalidate =
     (if isForVersion (versionUtil E) i mv nv
      then new E i absRoot relRoot url mv nv discard invalidate
      else resolverLoop E rest mv nv absRoot relRoot url discard invalidate)"

definition getNeoForgeResolver ::
  "env \<Rightarrow> MinecraftVersion \<Rightarrow> string \<Rightarrow> string \<Rightarrow> string \<Rightarrow> string \<Rightarrow> bool \<Rightarrow> bool
   \<Rightarrow> error + resolver \<times> console list" where
  "getNeoForgeResolver E mv nv absRoot relRoot url discard invalidate =
     resolverLoop E NEOFORGE_ADAPTER_IMPL mv nv absRoot relRoot url discard invalidate"

section \<open>The installer-mediated strategy\<close>

text \<open>Reading \<^verbatim>\<open>version.json\<close> out of a jar, of the resolver base.\<close>

definition getVersionManifestFromJar :: "env \<Rightarrow> path \<Rightarrow> bytes io" where
  "getVersionManifestFromJar E jarPath =
     bind_io (readFile jarPath) (\<lambda>jar.
       case entryDataSync (platform E) jar ''version.json'' of
         None \<Rightarrow> throw (External ''Entry not found'')
       | Some data \<Rightarrow> ret data)"

definition executeInstaller :: "env \<Rightarrow> path \<Rightarrow> unit io" where
  "executeInstaller E installerExec w =
     (Inr (), w\<lparr>fs := installed (platform E) installerExec (fs w),
                trace := trace w @ [Installer installerExec]\<rparr>)"

definition getVersionManifestPath :: "env \<Rightarrow> NeoForgeGradle3 \<Rightarrow> path \<Rightarrow> path" where
  "getVersionManifestPath E this installerOutputDir =
     (let versionName = getFileName (versionRepo E) (minecraftVersion this) (neoforgeVersion this)
      in join (join (join installerOutputDir ''versions'') versionName) (versionName @ ''.json''))"

definition verifyInstallerRan :: "env \<Rightarrow> NeoForgeGradle3 \<Rightarrow> path \<Rightarrow> unit io" where
  "verifyInstallerRan E this installerOutputDir =
     (let versionManifestPath = getVersionManifestPath E this installerOutputDir in
      bind_io (pathExists versionManifestPath) (\<lambda>found.
        if \<not> found then
          bind_io (remove installerOutputDir) (\<lambda>_.
            throw (Error (''NeoForge was either not installed or installed to the wrong location. When the neoforge installer opens, you MUST set the installation directory to ''
                          @ installerOutputDir)))
        else ret ()))"

definition processVersionManifest ::
  "env \<Rightarrow> NeoForgeGradle3 \<Rightarrow> path \<Rightarrow> (VersionManifestFG3 \<times> Module) io" where
  "processVersionManifest E this installerOutputDir =
     (let versionManifestPath = getVersionManifestPath E this installerOutputDir in
      bind_io (readFile versionManifestPath) (\<lambda>versionManifestBuf.
        case parseFG3 (platform E) versionManifestBuf of
          None \<Rightarrow> throw (External ''SyntaxError'')
        | Some versionManifest \<Rightarrow>
            bind_io (lstat versionManifestPath) (\<lambda>stats.
              let versionManifestModule =
                    Module (artifactVersion this) ''Minecraft NeoForge (version.json)''
                      VersionManifest None
                      (generateArtifact E versionManifestBuf stats
                         (getVersionManifestURL (versionRepo E) (baseUrl this)
                            (minecraftVersion this) (neoforgeVersion this)))
                      None;
                  destination = getVersionManifest (versionRepo E)
                                  (minecraftVersion this) (neoforgeVersion this)
              in bind_io (copy versionManifestPath destination) (\<lambda>_.
                   ret (versionManifest, versionManifestModule)))))"

fun getMCPVersion :: "string list \<Rightarrow> string option" where
  "getMCPVersion [] = None"
| "getMCPVersion (a # rest) =
     (if a = ''--fml.mcpVersion'' then (case rest of [] \<Rightarrow> None | v # _ \<Rightarrow> Some v)
      else getMCPVersion rest)"

text \<open>
  The \<^verbatim>\<open>map\<close> that puts the MCP version into the expected-file templates. It reads
  \<^verbatim>\<open>f.version.includes\<close>, which is a \<^verbatim>\<open>TypeError\<close> on an entry whose version is
  \<^verbatim>\<open>undefined\<close>.
\<close>

fun resolveWildcards :: "string \<Rightarrow> GeneratedFile list \<Rightarrow> error + GeneratedFile list" where
  "resolveWildcards mcpVersion [] = Inr []"
| "resolveWildcards mcpVersion (f # rest) =
     (case gf_version f of
        None \<Rightarrow> Inl (TypeError ''Cannot read properties of undefined (reading 'includes')'')
      | Some v \<Rightarrow>
          (case resolveWildcards mcpVersion rest of
             Inl e \<Rightarrow> Inl e
           | Inr rest' \<Rightarrow>
               Inr ((if includes_str v WILDCARD_MCP_VERSION
                     then f\<lparr>gf_version := Some (replace v WILDCARD_MCP_VERSION mcpVersion)\<rparr>
                     else f) # rest')))"

text \<open>
  For an expected-file entry and one of its classifiers: the path the file is looked up at
  inside the installer's library directory, the module that is emitted from its bytes, and
  the permanent location it is copied to.
\<close>

definition targetLocalPath :: "env \<Rightarrow> path \<Rightarrow> GeneratedFile \<Rightarrow> string option \<Rightarrow> path" where
  "targetLocalPath E libDir entry c =
     join libDir
       (mavenComponentsAsNormalizedPath (mavenUtil E)
          (gf_group entry) (gf_artifact entry) (gf_version entry) c)"

definition generatedModule ::
  "env \<Rightarrow> NeoForgeGradle3 \<Rightarrow> GeneratedFile \<Rightarrow> string option \<Rightarrow> bytes \<Rightarrow> nat \<Rightarrow> Module" where
  "generatedModule E this entry c buf stats =
     Module
       (Some (mavenComponentsToIdentifier (mavenUtil E)
                (gf_group entry) (gf_artifact entry) (gf_version entry) c None))
       (''Minecraft NeoForge ('' @ gf_name entry @ '')'')
       Library
       (Some (case classpath entry of None \<Rightarrow> True | Some b \<Rightarrow> b))
       (generateArtifact E buf stats
          (getArtifactUrlByComponents (libRepo E) (baseUrl this)
             (gf_group entry) (gf_artifact entry) (gf_version entry) c None))
       (Some [])"

definition destination :: "env \<Rightarrow> GeneratedFile \<Rightarrow> string option \<Rightarrow> path" where
  "destination E entry c =
     getArtifactByComponents (libRepo E)
       (gf_group entry) (gf_artifact entry) (gf_version entry) c None"

text \<open>
  The classifier loop of one expected-file entry. Its state is what the source keeps in
  \<^verbatim>\<open>targetLocations\<close>, \<^verbatim>\<open>located\<close> and \<^verbatim>\<open>mdls\<close>; the \<^verbatim>\<open>break\<close> is the branch
  that does not recur.
\<close>

fun classifierLoop ::
  "env \<Rightarrow> NeoForgeGradle3 \<Rightarrow> path \<Rightarrow> GeneratedFile \<Rightarrow> string option list
   \<Rightarrow> path list \<times> bool \<times> Module list \<Rightarrow> (path list \<times> bool \<times> Module list) io" where
  "classifierLoop E this libDir entry [] st = ret st"
| "classifierLoop E this libDir entry (c # cs) (targetLocations, located, mdls) =
     (let p = targetLocalPath E libDir entry c;
          targetLocations' = targetLocations @ [p] in
      bind_io (pathExists p) (\<lambda>found.
        if found then
          bind_io (readFile p) (\<lambda>buf.
          bind_io (lstat p) (\<lambda>stats.
          bind_io (copy p (destination E entry c)) (\<lambda>_.
            ret (targetLocations', True, mdls @ [generatedModule E this entry c buf stats]))))
        else classifierLoop E this libDir entry cs (targetLocations', located, mdls)))"

definition requiredFileMissing :: "GeneratedFile \<Rightarrow> path list \<Rightarrow> error" where
  "requiredFileMissing entry targetLocations =
     Error (''Required file '' @ gf_name entry @ '' not found at any expected location:''
            @ [CHR 0x0A, CHR 0x09] @ join_with [CHR 0x0A, CHR 0x09] targetLocations)"

fun generatedFilesLoop ::
  "env \<Rightarrow> NeoForgeGradle3 \<Rightarrow> path \<Rightarrow> GeneratedFile list \<Rightarrow> Module list \<Rightarrow> Module list io" where
  "generatedFilesLoop E this libDir [] mdls = ret mdls"
| "generatedFilesLoop E this libDir (entry # rest) mdls =
     bind_io (classifierLoop E this libDir entry (classifiers entry) ([], False, mdls))
       (\<lambda>(targetLocations, located, mdls').
          if skipIfNotPresent entry \<noteq> Some True \<and> \<not> located
          then throw (requiredFileMissing entry targetLocations)
          else generatedFilesLoop E this libDir rest mdls')"

text \<open>
  \<^verbatim>\<open>processNeoForgeModule\<close> answers the root module and the resolver with its templates
  resolved. \<^verbatim>\<open>mdls.shift()\<close> on an empty list is \<^verbatim>\<open>undefined\<close>, and setting its type
  is a \<^verbatim>\<open>TypeError\<close>.
\<close>

definition processNeoForgeModule ::
  "env \<Rightarrow> NeoForgeGradle3 \<Rightarrow> VersionManifestFG3 \<Rightarrow> path \<Rightarrow> (Module \<times> NeoForgeGradle3) io" where
  "processNeoForgeModule E this versionManifest installerOutputDir =
     (let libDir = join installerOutputDir ''libraries'' in
      bind_io
        (case wildcardsInUse this of
           None \<Rightarrow> ret this
         | Some ws \<Rightarrow>
             if WILDCARD_MCP_VERSION \<in> set ws then
               (case getMCPVersion (arguments_game versionManifest) of
                  None \<Rightarrow> throw (Error ''MCP Version not found.. did neoforge change their format?'')
                | Some mcpVersion \<Rightarrow>
                    (case generatedFiles this of
                       None \<Rightarrow> throw (TypeError ''Cannot read properties of undefined (reading 'map')'')
                     | Some gfs \<Rightarrow>
                         (case resolveWildcards mcpVersion gfs of
                            Inl e \<Rightarrow> throw e
                          | Inr gfs' \<Rightarrow> ret (this\<lparr>generatedFiles := Some gfs'\<rparr>))))
             else ret this)
        (\<lambda>this'.
           case generatedFiles this' of
             None \<Rightarrow> throw (TypeError ''undefined is not iterable'')
           | Some gfs \<Rightarrow>
               bind_io (generatedFilesLoop E this' libDir gfs []) (\<lambda>mdls.
                 case mdls of
                   [] \<Rightarrow> throw (TypeError ''Cannot set properties of undefined (setting 'type')'')
                 | m # ms \<Rightarrow>
                     ret (set_subModules (Some ms) (set_type NeoForgeHosted m), this'))))"

fun processLibrariesLoop ::
  "env \<Rightarrow> NeoForgeGradle3 \<Rightarrow> path \<Rightarrow> LibraryFG3 list \<Rightarrow> Module list \<Rightarrow> Module list io" where
  "processLibrariesLoop E this libDir [] mdls = ret mdls"
| "processLibrariesLoop E this libDir (entry # rest) mdls =
     (let artifact = downloads_artifact entry in
      if la_url artifact \<noteq> [] then
        (let targetLocalPath = join libDir (la_path artifact) in
         bind_io (pathExists targetLocalPath) (\<lambda>found.
           if \<not> found
           then throw (Error (''Expected library '' @ lib3_name entry @ '' not found!''))
           else
             (case getMavenComponents (mavenUtil E) (lib3_name entry) of
                Inl e \<Rightarrow> throw e
              | Inr components \<Rightarrow>
                  bind_io (readFile targetLocalPath) (\<lambda>buf.
                  bind_io (lstat targetLocalPath) (\<lambda>stats.
                    let m = Module (Some (lib3_name entry))
                              (''Minecraft NeoForge ('' @ mc_artifact components @ '')'')
                              Library None
                              (generateArtifact E buf stats
                                 (getArtifactUrlByComponents (libRepo E) (baseUrl this)
                                    (mc_group components) (mc_artifact components)
                                    (Some (mc_version components)) (mc_classifier components)
                                    (mc_extension components)))
                              None;
                        destination = getArtifactByComponents (libRepo E)
                                        (mc_group components) (mc_artifact components)
                                        (Some (mc_version components)) (mc_classifier components)
                                        (mc_extension components)
                    in bind_io (copy targetLocalPath destination) (\<lambda>_.
                         processLibrariesLoop E this libDir rest (mdls @ [m])))))))
      else processLibrariesLoop E this libDir rest mdls)"

definition processLibraries ::
  "env \<Rightarrow> NeoForgeGradle3 \<Rightarrow> VersionManifestFG3 \<Rightarrow> path \<Rightarrow> Module list io" where
  "processLibraries E this manifest installerOutputDir =
     processLibrariesLoop E this (join installerOutputDir ''libraries'') (libraries3 manifest) []"

text \<open>\<^verbatim>\<open>m.subModules?.unshift(x)\<close> and \<^verbatim>\<open>m.subModules = m.subModules?.concat(xs)\<close>.\<close>

definition unshift_subModule :: "Module \<Rightarrow> Module \<Rightarrow> Module" where
  "unshift_subModule x m = set_subModules (map_option (\<lambda>ms. x # ms) (subModules m)) m"

definition concat_subModules :: "Module list \<Rightarrow> Module \<Rightarrow> Module" where
  "concat_subModules xs m = set_subModules (map_option (\<lambda>ms. ms @ xs) (subModules m)) m"

text \<open>
  The first part of \<^verbatim>\<open>processWithInstaller\<close>: the cache check and, unless a cached
  output directory is reused, the run of the installer in it. It answers
  \<^verbatim>\<open>installerOutputDir\<close>.
\<close>

definition installerOutput :: "env \<Rightarrow> NeoForgeGradle3 \<Rightarrow> path \<Rightarrow> path io" where
  "installerOutput E this installerPath =
     (let cacheDir = getNeoForgeCacheDirectory E (artifactVersion this) in
      bind_io (pathExists cacheDir) (\<lambda>cached.
      bind_io
        (if cached then
           (if invalidateCache this then bind_io (remove cacheDir) (\<lambda>_. ret True)
            else ret False)
         else bind_io (mkdirs cacheDir) (\<lambda>_. ret True))
        (\<lambda>doInstall.
      let installerOutputDir = cacheDir in
      bind_io
        (if doInstall then
           (let workingInstaller = join installerOutputDir (basename installerPath) in
            bind_io (copy installerPath workingInstaller) (\<lambda>_.
            bind_io (writeFile (join installerOutputDir ''launcher_profiles.json'') ''{}'') (\<lambda>_.
              executeInstaller E workingInstaller)))
         else ret ())
        (\<lambda>_. ret installerOutputDir))))"

definition processWithInstaller :: "env \<Rightarrow> NeoForgeGradle3 \<Rightarrow> path \<Rightarrow> Module io" where
  "processWithInstaller E this installerPath =
     bind_io (installerOutput E this installerPath) (\<lambda>installerOutputDir.
     bind_io (verifyInstallerRan E this installerOutputDir) (\<lambda>_.
     bind_io (processVersionManifest E this installerOutputDir) (\<lambda>(versionManifest, vmModule).
     bind_io (processNeoForgeModule E this versionManifest installerOutputDir)
       (\<lambda>(neoforgeModule, this').
     let withManifest = unshift_subModule vmModule neoforgeModule in
     bind_io (processLibraries E this' versionManifest installerOutputDir) (\<lambda>libs.
     let result = concat_subModules libs withManifest in
     bind_io (if discardOutput this' then remove installerOutputDir else ret ()) (\<lambda>_.
       ret result))))))"

section \<open>The modules of the direct-extraction paths\<close>

text \<open>
  The object literals that both direct-extraction paths write: the root module of the
  loader's universal jar, and the module of a library of the manifest with its
  \<^verbatim>\<open>properId\<close>.
\<close>

definition rootModule ::
  "env \<Rightarrow> 'a NeoForgeResolver_scheme \<Rightarrow> bytes \<Rightarrow> nat \<Rightarrow> Module" where
  "rootModule E this buf stats =
     Module
       (Some (mavenComponentsToIdentifier (mavenUtil E)
                (NEOFORGE_GROUP (libRepo E)) (NEOFORGE_ARTIFACT (libRepo E))
                (artifactVersion this) (Some ''universal'') None))
       ''Minecraft NeoForge'' NeoForgeHosted None
       (generateArtifact E buf stats
          (getArtifactUrlByComponents (libRepo E) (baseUrl this)
             (NEOFORGE_GROUP (libRepo E)) (NEOFORGE_ARTIFACT (libRepo E))
             (artifactVersion this) (Some ''universal'') None))
       (Some [])"

definition properId :: "env \<Rightarrow> MavenComponents \<Rightarrow> string \<Rightarrow> string" where
  "properId E mavenComponents extension =
     mavenComponentsToIdentifier (mavenUtil E)
       (mc_group mavenComponents) (mc_artifact mavenComponents)
       (Some (mc_version mavenComponents)) (mc_classifier mavenComponents) (Some extension)"

definition libraryModule ::
  "env \<Rightarrow> 'a NeoForgeResolver_scheme \<Rightarrow> MavenComponents \<Rightarrow> string \<Rightarrow> bytes \<Rightarrow> nat \<Rightarrow> Module" where
  "libraryModule E this mavenComponents extension libBuf stats =
     Module (Some (properId E mavenComponents extension))
       (''Minecraft NeoForge ('' @ mc_artifact mavenComponents @ '')'')
       Library None
       (generateArtifact E libBuf stats
          (getArtifactUrlByComponents (libRepo E) (baseUrl this)
             (mc_group mavenComponents) (mc_artifact mavenComponents)
             (Some (mc_version mavenComponents)) (mc_classifier mavenComponents)
             (Some extension)))
       None"

section \<open>The direct-extraction path of the second strategy\<close>

definition push_subModule :: "Module \<Rightarrow> Module \<Rightarrow> Module" where
  "push_subModule x m = set_subModules (map_option (\<lambda>ms. ms @ [x]) (subModules m)) m"

text \<open>
  ``Check for local universal jar'': the local bytes when the file exists and its SHA-1 is
  the one the manifest's own record declares, and \<^verbatim>\<open>undefined\<close> (\<open>None\<close>) otherwise.
\<close>

definition localUniversalBuffer ::
  "env \<Rightarrow> path \<Rightarrow> LibraryFG3 \<Rightarrow> bytes option io" where
  "localUniversalBuffer E universalLocalPath neoforgeMdl =
     bind_io (artifactExists universalLocalPath) (\<lambda>found.
       if found then
         bind_io (readFile universalLocalPath) (\<lambda>localUniBuf.
           if sha1 (platform E) localUniBuf \<noteq> la_sha1 (downloads_artifact neoforgeMdl)
           then ret None
           else ret (Some localUniBuf))
       else ret None)"

text \<open>``Download if local is missing or corrupt''.\<close>

definition neoforgeUniversalBuffer ::
  "env \<Rightarrow> NeoForgeGradle3 \<Rightarrow> path \<Rightarrow> LibraryFG3 \<Rightarrow> bytes io" where
  "neoforgeUniversalBuffer E this universalLocalPath neoforgeMdl =
     bind_io (localUniversalBuffer E universalLocalPath neoforgeMdl) (\<lambda>local.
       case local of
         Some buf \<Rightarrow> ret buf
       | None \<Rightarrow>
           bind_io (downloadArtifactByComponents E REMOTE_REPOSITORY
                      (NEOFORGE_GROUP (libRepo E)) (NEOFORGE_ARTIFACT (libRepo E))
                      (artifactVersion this) ''universal'' ''jar'') (\<lambda>_.
             readFile universalLocalPath))"

text \<open>The root module, built from the bytes that were reused or fetched.\<close>

definition universalModule ::
  "env \<Rightarrow> NeoForgeGradle3 \<Rightarrow> path \<Rightarrow> LibraryFG3 \<Rightarrow> Module io" where
  "universalModule E this universalLocalPath neoforgeMdl =
     bind_io (neoforgeUniversalBuffer E this universalLocalPath neoforgeMdl) (\<lambda>buf.
     bind_io (lstat universalLocalPath) (\<lambda>stats.
       ret (rootModule E this buf stats)))"

text \<open>
  The body of the library loop of \<^verbatim>\<open>processWithoutInstaller\<close> for one record that the
  loop does not skip. \<open>local\<close> is \<^verbatim>\<open>libBuf\<close> when no download is queued.
\<close>

definition libraryFG3 :: "env \<Rightarrow> NeoForgeGradle3 \<Rightarrow> LibraryFG3 \<Rightarrow> Module io" where
  "libraryFG3 E this lib =
     (let extension = ''jar'';
          localPath = getArtifactById (libRepo E) (lib3_name lib) extension in
      bind_io (artifactExists localPath) (\<lambda>found.
      bind_io
        (if found then
           bind_io (readFile localPath) (\<lambda>libBuf.
             if sha1 (platform E) libBuf \<noteq> la_sha1 (downloads_artifact lib)
             then ret None
             else ret (Some libBuf))
         else ret None)
        (\<lambda>local.
      bind_io
        (case local of
           None \<Rightarrow>
             bind_io (downloadArtifactDirect E (la_url (downloads_artifact lib))
                        (la_path (downloads_artifact lib))) (\<lambda>_.
               readFile localPath)
         | Some libBuf \<Rightarrow> ret libBuf)
        (\<lambda>libBuf.
      bind_io (lstat localPath) (\<lambda>stats.
        case getMavenComponents (mavenUtil E) (lib3_name lib) of
          Inl e \<Rightarrow> throw e
        | Inr mavenComponents \<Rightarrow>
            ret (libraryModule E this mavenComponents extension libBuf stats))))))"

fun librariesFG3Loop ::
  "env \<Rightarrow> NeoForgeGradle3 \<Rightarrow> LibraryFG3 list \<Rightarrow> Module \<Rightarrow> Module io" where
  "librariesFG3Loop E this [] neoforgeModule = ret neoforgeModule"
| "librariesFG3Loop E this (lib # rest) neoforgeModule =
     (if startsWith (lib3_name lib) ''net.neoforge.maven:neo:''
      then librariesFG3Loop E this rest neoforgeModule
      else bind_io (libraryFG3 E this lib) (\<lambda>m.
             librariesFG3Loop E this rest (push_subModule m neoforgeModule)))"

definition processWithoutInstaller :: "env \<Rightarrow> NeoForgeGradle3 \<Rightarrow> path \<Rightarrow> Module io" where
  "processWithoutInstaller E this installerPath =
     bind_io
       (\<lambda>w. case getVersionManifestFromJar E installerPath w of
               (Inl err, w') \<Rightarrow>
                 (Inl (Error ''Failed to find version.json in neoforge installer jar.''), w')
             | (Inr buf, w') \<Rightarrow> (Inr buf, w'))
       (\<lambda>versionManifestBuf.
     case parseFG3 (platform E) versionManifestBuf of
       None \<Rightarrow> throw (External ''SyntaxError'')
     | Some versionManifest \<Rightarrow>
     (let versionManifestDest =
            getVersionManifest (versionRepo E) (minecraftVersion this) (neoforgeVersion this) in
      bind_io (mkdirs (dirname versionManifestDest)) (\<lambda>_.
      bind_io (writeFile versionManifestDest (stringify (platform E) versionManifest)) (\<lambda>_.
      let universalLocalPath = getLocalNeoForge (libRepo E) (artifactVersion this) ''universal''
      in
      case find (\<lambda>val. startsWith (lib3_name val) ''net.neoforge.maven:neoforge:'')
             (libraries3 versionManifest) of
        None \<Rightarrow> throw (Error ''NeoForge entry not found in version.json!'')
      | Some neoforgeMdl \<Rightarrow>
      bind_io (universalModule E this universalLocalPath neoforgeMdl) (\<lambda>neoforgeModule.
      bind_io (readFile versionManifestDest) (\<lambda>manifestBuf.
      bind_io (lstat versionManifestDest) (\<lambda>manifestStats.
      let withManifest =
            push_subModule
              (Module (artifactVersion this) ''Minecraft NeoForge (version.json)''
                 VersionManifest None
                 (generateArtifact E manifestBuf manifestStats
                    (getVersionManifestURL (versionRepo E) (baseUrl this)
                       (minecraftVersion this) (neoforgeVersion this)))
                 None)
              neoforgeModule
      in librariesFG3Loop E this (libraries3 versionManifest) withManifest)))))))"

text \<open>\<^verbatim>\<open>process\<close>, the entry point of the second strategy (\<^verbatim>\<open>getModule\<close>).\<close>

definition process :: "env \<Rightarrow> NeoForgeGradle3 \<Rightarrow> Module io" where
  "process E this =
     (let installerPath = getLocalNeoForge (libRepo E) (artifactVersion this) ''installer'' in
      bind_io (artifactExists installerPath) (\<lambda>found.
      bind_io
        (if \<not> found
         then downloadArtifactByComponents E REMOTE_REPOSITORY
                (NEOFORGE_GROUP (libRepo E)) (NEOFORGE_ARTIFACT (libRepo E))
                (artifactVersion this) ''installer'' ''jar''
         else ret ())
        (\<lambda>_.
      if generatedFiles this \<noteq> None \<and> generatedFiles this \<noteq> Some []
      then processWithInstaller E this installerPath
      else processWithoutInstaller E this installerPath)))"

section \<open>The legacy strategy\<close>

fun probeLocal :: "env \<Rightarrow> LibraryFG2 \<Rightarrow> string list \<Rightarrow> string option io" where
  "probeLocal E lib [] = ret None"
| "probeLocal E lib (ext # rest) =
     bind_io (artifactExists (getArtifactById (libRepo E) (lib2_name lib) ext)) (\<lambda>found.
       if found then ret (Some ext) else probeLocal E lib rest)"

fun probeRemote :: "env \<Rightarrow> LibraryFG2 \<Rightarrow> string list \<Rightarrow> string option io" where
  "probeRemote E lib [] = ret None"
| "probeRemote E lib (ext # rest) =
     (case headArtifactById (libRepo E) REMOTE_REPOSITORY (lib2_name lib) ext of
        Inl e \<Rightarrow> throw e
      | Inr found \<Rightarrow> if found then ret (Some ext) else probeRemote E lib rest)"

definition determineExtension :: "env \<Rightarrow> LibraryFG2 \<Rightarrow> string io" where
  "determineExtension E lib =
     (if lib2_url lib = None then ret ''jar''
      else
        (let possibleExt = [''jar.pack.xz'', ''jar''] in
         bind_io (probeLocal E lib possibleExt) (\<lambda>local.
           case local of
             Some ext \<Rightarrow> ret ext
           | None \<Rightarrow>
               bind_io (probeRemote E lib possibleExt) (\<lambda>remote.
                 case remote of
                   Some ext \<Rightarrow> ret ext
                 | None \<Rightarrow> ret ''jar''))))"

text \<open>
  The body of the library loop of \<^verbatim>\<open>getNeoForgeByVersion\<close> for one record that the loop
  does not skip: the module, and the entry for the post-process queue when the extension is
  the compressed one. \<open>queueDownload\<close> and \<open>libBuf\<close> are the variables of the source.
\<close>

definition libraryFG2 ::
  "env \<Rightarrow> NeoForgeResolver \<Rightarrow> LibraryFG2 \<Rightarrow> (Module \<times> (string \<times> path) option) io" where
  "libraryFG2 E this lib =
     bind_io (determineExtension E lib) (\<lambda>extension.
     let localPath = getArtifactById (libRepo E) (lib2_name lib) extension;
         postProcess = (extension = ''jar.pack.xz'') in
     bind_io (artifactExists localPath) (\<lambda>found.
     bind_io
       (if found then
          bind_io (readFile localPath) (\<lambda>libBuf.
            if \<not> postProcess then
              (case checksums lib of
                 Some [checksum] \<Rightarrow>
                   if sha1 (platform E) libBuf \<noteq> checksum
                   then ret (True, Some libBuf)
                   else ret (False, Some libBuf)
               | _ \<Rightarrow> ret (False, Some libBuf))
            else ret (False, Some libBuf))
        else ret (True, None))
       (\<lambda>(queueDownload, libBuf).
     bind_io
       (if queueDownload then
          bind_io (downloadArtifactById E
                     (case lib2_url lib of
                        None \<Rightarrow> MOJANG_REMOTE_REPOSITORY
                      | Some u \<Rightarrow> if u = [] then MOJANG_REMOTE_REPOSITORY else u)
                     (lib2_name lib) extension) (\<lambda>_.
            readFile localPath)
        else (case libBuf of
                Some b \<Rightarrow> ret b
              | None \<Rightarrow> throw (TypeError ''libBuf is undefined'')))
       (\<lambda>buf.
     bind_io (lstat localPath) (\<lambda>stats.
       case getMavenComponents (mavenUtil E) (lib2_name lib) of
         Inl e \<Rightarrow> throw e
       | Inr mavenComponents \<Rightarrow>
           ret (libraryModule E this mavenComponents extension buf stats,
                if postProcess
                then Some (properId E mavenComponents extension, localPath)
                else None))))))"

text \<open>The download request of the legacy step: \<^verbatim>\<open>lib.url || MOJANG_REMOTE_REPOSITORY\<close>.\<close>

definition legacyRequest :: "LibraryFG2 \<Rightarrow> string \<Rightarrow> request" where
  "legacyRequest lib ext =
     ById (case lib2_url lib of
             None \<Rightarrow> MOJANG_REMOTE_REPOSITORY
           | Some u \<Rightarrow> if u = [] then MOJANG_REMOTE_REPOSITORY else u)
          (lib2_name lib) ext"












section \<open>A concrete environment\<close>

text \<open>
  One instance of the parameters, on which the model is evaluated at explicit inputs:
  Maven identifiers \<^verbatim>\<open>group:artifact:version[:classifier][@extension]\<close>, the Maven
  directory layout, a repository under \<^verbatim>\<open>/repo\<close>, hashes that print their input, and a remote side whose every
  artifact has the content \<^verbatim>\<open>fresh\<close>. \<open>versionGte\<close> compares dotted numbers as texts of
  equal length and throws on an \<^verbatim>\<open>undefined\<close> minimum.
\<close>

fun split_on :: "char \<Rightarrow> string \<Rightarrow> string list" where
  "split_on s [] = [[]]"
| "split_on s (c # cs) =
     (if c = s then [] # split_on s cs
      else (case split_on s cs of [] \<Rightarrow> [[c]] | x # xs \<Rightarrow> (c # x) # xs))"

definition versionUtil0 :: VersionUtil where
  "versionUtil0 =
     \<lparr>isVersionAcceptable = (\<lambda>v acceptable. getMajor v = 1 \<and> getMinor v \<in> set acceptable),
      isOneDotTwelveFG2 = (\<lambda>lv. lv = ''14.23.5.2847''),
      versionGte = (\<lambda>v m. case m of
                             None \<Rightarrow> Inl (TypeError ''Cannot read properties of undefined'')
                           | Some m' \<Rightarrow> Inr (v = m'))\<rparr>"

definition identifier0 ::
  "string \<Rightarrow> string \<Rightarrow> string option \<Rightarrow> string option \<Rightarrow> string option \<Rightarrow> string" where
  "identifier0 g a v c e =
     g @ '':'' @ a @ '':'' @ template v
       @ (case c of None \<Rightarrow> [] | Some c' \<Rightarrow> '':'' @ c')
       @ (case e of None \<Rightarrow> [] | Some e' \<Rightarrow> ''@'' @ e')"

definition normalizedPath0 ::
  "string \<Rightarrow> string \<Rightarrow> string option \<Rightarrow> string option \<Rightarrow> string option \<Rightarrow> path" where
  "normalizedPath0 g a v c e =
     map (\<lambda>x. if x = CHR ''.'' then CHR ''/'' else x) g @ ''/'' @ a @ ''/'' @ template v @ ''/'' @ a @ ''-'' @ template v
       @ (case c of None \<Rightarrow> [] | Some c' \<Rightarrow> ''-'' @ c')
       @ ''.'' @ (case e of None \<Rightarrow> ''jar'' | Some e' \<Rightarrow> e')"

definition components0 :: "string \<Rightarrow> error + MavenComponents" where
  "components0 i =
     (case split_on CHR '':'' i of
        [g, a, v] \<Rightarrow>
          Inr \<lparr>mc_group = g, mc_artifact = a, mc_version = v, mc_classifier = None,
               mc_extension = None\<rparr>
      | [g, a, v, c] \<Rightarrow>
          Inr \<lparr>mc_group = g, mc_artifact = a, mc_version = v, mc_classifier = Some c,
               mc_extension = None\<rparr>
      | _ \<Rightarrow> Inl (TypeError ''Cannot read properties of null''))"

definition mavenUtil0 :: MavenUtil where
  "mavenUtil0 =
     \<lparr>mavenComponentsToIdentifier = identifier0,
      mavenComponentsAsNormalizedPath = (\<lambda>g a v c. normalizedPath0 g a v c None),
      getMavenComponents = components0\<rparr>"

definition byId0 :: "string \<Rightarrow> string \<Rightarrow> path" where
  "byId0 i e =
     (case components0 i of
        Inl err \<Rightarrow> ''/repo/lib/'' @ i @ ''.'' @ e
      | Inr mc \<Rightarrow>
          ''/repo/lib/'' @ normalizedPath0 (mc_group mc) (mc_artifact mc)
                            (Some (mc_version mc)) (mc_classifier mc) (Some e))"

definition byComponents0 ::
  "string \<Rightarrow> string \<Rightarrow> string option \<Rightarrow> string option \<Rightarrow> string option \<Rightarrow> path" where
  "byComponents0 g a v c e = ''/repo/lib/'' @ normalizedPath0 g a v c e"

definition downloaded0 :: "request \<Rightarrow> filesystem \<Rightarrow> error + filesystem" where
  "downloaded0 r f =
     (case r of
        ByComponents u g a v c e \<Rightarrow> Inr (f(byComponents0 g a v (Some c) (Some e) \<mapsto> File ''fresh''))
      | ById u i e \<Rightarrow> Inr (f(byId0 i e \<mapsto> File ''fresh''))
      | Direct u p \<Rightarrow> Inr (f(''/repo/lib/'' @ p \<mapsto> File ''fresh'')))"

definition libRepo0 :: LibRepoStructure where
  "libRepo0 =
     \<lparr>NEOFORGE_GROUP = ''net.neoforged'',
      NEOFORGE_ARTIFACT = ''neoforge'',
      NEOFMLCORE_ARTIFACT = ''neofmlcore'',
      FMLCORE_ARTIFACT = ''fmlcore'',
      JAVAFMLLANGUAGE_ARTIFACT = ''javafmllanguage'',
      MCLANGUAGE_ARTIFACT = ''mclanguage'',
      LOWCODELANGUAGE_ARTIFACT = ''lowcodelanguage'',
      MINECRAFT_GROUP = ''net.minecraft'',
      MINECRAFT_CLIENT_ARTIFACT = ''client'',
      getLocalNeoForge = (\<lambda>v c. byComponents0 ''net.neoforged'' ''neoforge'' v (Some c) (Some ''jar'')),
      getArtifactById = byId0,
      getArtifactByComponents = byComponents0,
      getArtifactUrlByComponents = (\<lambda>u g a v c e. u @ normalizedPath0 g a v c e),
      headArtifactById = (\<lambda>u i e. Inr False),
      downloaded = downloaded0\<rparr>"

definition versionRepo0 :: VersionRepoStructure where
  "versionRepo0 =
     \<lparr>getFileName = (\<lambda>mv nv. toString mv @ ''-neoforge-'' @ nv),
      getVersionManifest =
        (\<lambda>mv nv. ''/repo/versions/'' @ toString mv @ ''-neoforge-'' @ nv @ ''.json''),
      getVersionManifestURL =
        (\<lambda>u mv nv. u @ ''versions/'' @ toString mv @ ''-neoforge-'' @ nv @ ''.json'')\<rparr>"

text \<open>
  Sample manifests. The legacy one lists the loader's own record and two libraries that
  each declare one checksum; the newer one lists the loader's own record and one library.
  The sample parsers read them from the texts \<^verbatim>\<open>{manifest2}\<close> and \<^verbatim>\<open>{manifest3}\<close>.
\<close>

definition lib_scala :: LibraryFG2 where
  "lib_scala =
     \<lparr>lib2_name = ''org.scala-lang:scala-library:2.11.1'',
      lib2_url = Some ''https://maven.neoforge.net/'',
      checksums = Some [''declared'']\<rparr>"

definition lib_guava :: LibraryFG2 where
  "lib_guava =
     \<lparr>lib2_name = ''com.google.guava:guava:17.0'', lib2_url = None,
      checksums = Some [''declared'']\<rparr>"

definition manifest2 :: VersionManifestFG2 where
  "manifest2 =
     \<lparr>libraries2 =
        [\<lparr>lib2_name = ''net.neoforge:neoforge:1.11.2-13.20.1.2588'', lib2_url = None,
           checksums = None\<rparr>,
         lib_scala, lib_guava]\<rparr>"

definition lib_self :: LibraryFG3 where
  "lib_self =
     \<lparr>lib3_name = ''net.neoforge.maven:neoforge:20.2.86'',
      downloads_artifact =
        \<lparr>la_path = ''net/neoforge/maven/neoforge/20.2.86/neoforge-20.2.86.jar'',
         la_url = ''https://maven.neoforge.net/net/neoforge/maven/neoforge/20.2.86/neoforge-20.2.86.jar'',
         la_sha1 = ''sha1 of universal''\<rparr>\<rparr>"

definition lib_asm :: LibraryFG3 where
  "lib_asm =
     \<lparr>lib3_name = ''org.ow2.asm:asm:9.6'',
      downloads_artifact =
        \<lparr>la_path = ''org/ow2/asm/asm/9.6/asm-9.6.jar'',
         la_url = ''https://maven.neoforge.net/org/ow2/asm/asm/9.6/asm-9.6.jar'',
         la_sha1 = ''sha1 of fresh''\<rparr>\<rparr>"

definition manifest3 :: VersionManifestFG3 where
  "manifest3 =
     \<lparr>libraries3 = [lib_self, lib_asm],
      arguments_game = [''--launchTarget'', ''forgeclient'',
                        ''--fml.mcpVersion'', ''20231019.002635'']\<rparr>"

definition platform0 :: platform where
  "platform0 =
     \<lparr>sha1 = (\<lambda>b. ''sha1 of '' @ b),
      md5 = (\<lambda>b. ''md5 of '' @ b),
      entryDataSync = (\<lambda>jar entry. if entry = ''version.json'' then Some jar else None),
      parseFG2 = (\<lambda>b. if b = ''{manifest2}'' then Some manifest2 else None),
      parseFG3 = (\<lambda>b. if b = ''{manifest3}'' then Some manifest3 else None),
      stringify = (\<lambda>m. ''{}''),
      installed = (\<lambda>p f. f),
      unpacked = (\<lambda>ps f. Inr f)\<rparr>"

definition env0 :: env where
  "env0 =
     \<lparr>versionUtil = versionUtil0, mavenUtil = mavenUtil0, libRepo = libRepo0,
      versionRepo = versionRepo0, getTempDirectory = ''/repo/temp'',
      getNeoForgeCacheDirectory = (\<lambda>v. ''/repo/cache/'' @ template v),
      platform = platform0\<rparr>"

definition mc_1_12_2 :: MinecraftVersion where
  "mc_1_12_2 = \<lparr>getMajor = 1, getMinor = 12, getRevision = 2, toString = ''1.12.2''\<rparr>"

definition mc_1_11_2 :: MinecraftVersion where
  "mc_1_11_2 = \<lparr>getMajor = 1, getMinor = 11, getRevision = 2, toString = ''1.11.2''\<rparr>"

definition mc_1_18_2 :: MinecraftVersion where
  "mc_1_18_2 = \<lparr>getMajor = 1, getMinor = 18, getRevision = 2, toString = ''1.18.2''\<rparr>"

definition mc_1_20_4 :: MinecraftVersion where
  "mc_1_20_4 = \<lparr>getMajor = 1, getMinor = 20, getRevision = 4, toString = ''1.20.4''\<rparr>"

text \<open>
  The resolver of the second strategy for game version 1.20.4 as its constructor leaves it,
  and a world in which a cached installer output directory exists but is empty.
\<close>

definition gradle3_1_20_4 :: NeoForgeGradle3 where
  "gradle3_1_20_4 =
     configure env0
       \<lparr>absoluteRoot = ''/repo'', relativeRoot = ''repo'', baseUrl = ''http://host/'',
        minecraftVersion = mc_1_20_4, neoforgeVersion = ''20.4.80'',
        discardOutput = False, invalidateCache = False, artifactVersion = None,
        generatedFiles = None, wildcardsInUse = None\<rparr>"

definition world_empty_cache :: world where
  "world_empty_cache =
     \<lparr>fs = map_of [(''/repo/cache/undefined'', Dir),
                    (''/repo/cache/undefined/launcher_profiles.json'', File ''{}'')],
      trace = []\<rparr>"




text \<open>
  The resolver of the legacy strategy for game version 1.11.2, and a world that holds a
  cached copy of the two legacy libraries whose SHA-1 is not the declared one: the first as
  a compressed file, the second as a plain jar.
\<close>

definition legacy_1_11_2 :: NeoForgeResolver where
  "legacy_1_11_2 =
     \<lparr>absoluteRoot = ''/repo'', relativeRoot = ''repo'', baseUrl = ''http://host/'',
      minecraftVersion = mc_1_11_2, neoforgeVersion = ''13.20.1.2588'',
      discardOutput = False, invalidateCache = False, artifactVersion = None\<rparr>"

definition world_stale :: world where
  "world_stale =
     \<lparr>fs = map_of
             [(''/repo/lib/org/scala-lang/scala-library/2.11.1/scala-library-2.11.1.jar.pack.xz'', File ''stale''),
              (''/repo/lib/com/google/guava/guava/17.0/guava-17.0.jar'', File ''stale'')],
      trace = []\<rparr>"


text \<open>
  The resolver of the second strategy for game version 1.18.2, for which \<open>configure\<close>
  sets no expected-file table, and a world whose repository holds the installer jar (with
  the sample manifest as its \<^verbatim>\<open>version.json\<close>) and the loader's universal jar.
\<close>

definition gradle3_1_18_2 :: NeoForgeGradle3 where
  "gradle3_1_18_2 =
     configure env0
       \<lparr>absoluteRoot = ''/repo'', relativeRoot = ''repo'', baseUrl = ''http://host/'',
        minecraftVersion = mc_1_18_2, neoforgeVersion = ''40.2.0'',
        discardOutput = False, invalidateCache = False, artifactVersion = None,
        generatedFiles = None, wildcardsInUse = None\<rparr>"

definition world_direct :: world where
  "world_direct =
     \<lparr>fs = map_of
             [(''/repo/lib/net/neoforged/neoforge/undefined/neoforge-undefined-installer.jar'',
               File ''{manifest3}''),
              (''/repo/lib/net/neoforged/neoforge/undefined/neoforge-undefined-universal.jar'',
               File ''universal'')],
      trace = []\<rparr>"




text \<open>
  A world after a run of the installer for game version 1.20.4: the cached output
  directory holds the version manifest (the sample manifest of the newer format), the
  seven expected files and the two libraries of the manifest.
\<close>

definition world_installed :: world where
  "world_installed =
     \<lparr>fs = map_of
             [(''/repo/cache/undefined'', Dir),
              (''/repo/cache/undefined/versions/1.20.4-neoforge-20.4.80/1.20.4-neoforge-20.4.80.json'',
               File ''{manifest3}''),
              (''/repo/cache/undefined/libraries/net/neoforged/neoforge/undefined/neoforge-undefined-universal.jar'',
               File ''universal''),
              (''/repo/cache/undefined/libraries/net/neoforged/neoforge/undefined/neoforge-undefined-client.jar'',
               File ''client''),
              (''/repo/cache/undefined/libraries/net/neoforged/neoforge/undefined/neoforge-undefined-shim.jar'',
               File ''shim''),
              (''/repo/cache/undefined/libraries/net/neoforged/neofmlcore/undefined/neofmlcore-undefined.jar'',
               File ''fmlcore''),
              (''/repo/cache/undefined/libraries/net/neoforged/javafmllanguage/undefined/javafmllanguage-undefined.jar'',
               File ''javafml''),
              (''/repo/cache/undefined/libraries/net/neoforged/mclanguage/undefined/mclanguage-undefined.jar'',
               File ''mclanguage''),
              (''/repo/cache/undefined/libraries/net/neoforged/lowcodelanguage/undefined/lowcodelanguage-undefined.jar'',
               File ''lowcode''),
              (''/repo/cache/undefined/libraries/net/neoforge/maven/neoforge/20.2.86/neoforge-20.2.86.jar'',
               File ''own''),
              (''/repo/cache/undefined/libraries/org/ow2/asm/asm/9.6/asm-9.6.jar'', File ''asm'')],
      trace = []\<rparr>"

section \<open>Basic facts\<close>

lemmas env0_defs =
  env0_def versionUtil0_def libRepo0_def mavenUtil0_def platform0_def versionRepo0_def

lemma bind_io_Inr: "m w = (Inr x, w') \<Longrightarrow> bind_io m k w = k x w'"
  by (simp add: bind_io_def)

lemma bind_io_Inl: "m w = (Inl e, w') \<Longrightarrow> bind_io m k w = (Inl e, w')"
  by (simp add: bind_io_def)

lemma bind_io_InrE:
  "bind_io m k w = (Inr y, w') \<Longrightarrow> \<exists>x w1. m w = (Inr x, w1) \<and> k x w1 = (Inr y, w')"
  by (auto simp: bind_io_def split: prod.splits sum.splits)


text \<open>The fields of the concrete environment that the evaluations read.\<close>

lemma env0_fields:
  "getMavenComponents (mavenUtil env0) = components0"
  "mavenComponentsToIdentifier (mavenUtil env0) = identifier0"
  "mavenComponentsAsNormalizedPath (mavenUtil env0) = (\<lambda>g a v c. normalizedPath0 g a v c None)"
  "downloaded (libRepo env0) = downloaded0"
  "getArtifactById (libRepo env0) = byId0"
  "getArtifactByComponents (libRepo env0) = byComponents0"
  "getLocalNeoForge (libRepo env0)
     = (\<lambda>v c. byComponents0 ''net.neoforged'' ''neoforge'' v (Some c) (Some ''jar''))"
  "headArtifactById (libRepo env0) = (\<lambda>u i e. Inr False)"
  "sha1 (platform env0) = (\<lambda>b. ''sha1 of '' @ b)"
  "md5 (platform env0) = (\<lambda>b. ''md5 of '' @ b)"
  "entryDataSync (platform env0) = (\<lambda>jar entry. if entry = ''version.json'' then Some jar else None)"
  "parseFG2 (platform env0) = (\<lambda>b. if b = ''{manifest2}'' then Some manifest2 else None)"
  "parseFG3 (platform env0) = (\<lambda>b. if b = ''{manifest3}'' then Some manifest3 else None)"
  "stringify (platform env0) = (\<lambda>m. ''{}'')"
  "installed (platform env0) = (\<lambda>p f. f)"
  "unpacked (platform env0) = (\<lambda>ps f. Inr f)"
  "getTempDirectory env0 = ''/repo/temp''"
  "getNeoForgeCacheDirectory env0 = (\<lambda>v. ''/repo/cache/'' @ template v)"
  "getFileName (versionRepo env0) = (\<lambda>mv nv. toString mv @ ''-neoforge-'' @ nv)"
  "getVersionManifest (versionRepo env0)
     = (\<lambda>mv nv. ''/repo/versions/'' @ toString mv @ ''-neoforge-'' @ nv @ ''.json'')"
  by (simp_all add: env0_defs)

section \<open>Strategy selection\<close>

lemma resolverLoop_find:
  "resolverLoop E tbl mv nv a r u d i =
     (case find (\<lambda>c. isForVersion (versionUtil E) c mv nv) tbl of
        None \<Rightarrow> Inl (Error (''No forge resolver found for Minecraft '' @ toString mv @ ''!''))
      | Some c \<Rightarrow> new E c a r u mv nv d i)"
  by (induction tbl) auto




text \<open>
  The two version predicates never accept the same pair when the minor version is 12, and
  a first-match search finds the same entry in any list with the same members.
\<close>

lemma exclusive_12:
  "getMinor mv = 12 \<Longrightarrow>
   \<not> (NeoForgeGradle2Adapter_isForVersion vu mv nv \<and> NeoForgeGradle3Adapter_isForVersion vu mv nv)"
  by (auto simp: NeoForgeGradle2Adapter_isForVersion_def NeoForgeGradle3Adapter_isForVersion_def)

lemma find_unique:
  "\<forall>x \<in> set xs. \<forall>y \<in> set xs. P x \<longrightarrow> P y \<longrightarrow> x = y \<Longrightarrow> set xs = set ys \<Longrightarrow> find P xs = find P ys"
proof (cases "find P xs")
  case None
  assume s: "set xs = set ys"
  from None have "\<forall>x \<in> set xs. \<not> P x" by (simp add: find_None_iff)
  with s have "find P ys = None" by (simp add: find_None_iff)
  with None show ?thesis by simp
next
  case (Some x)
  assume u: "\<forall>x \<in> set xs. \<forall>y \<in> set xs. P x \<longrightarrow> P y \<longrightarrow> x = y" and s: "set xs = set ys"
  from Some have x: "x \<in> set xs" "P x" by (auto simp: find_Some_iff)
  then have "\<exists>y \<in> set ys. P y" using s by auto
  then obtain y where y: "find P ys = Some y" by (cases "find P ys") (auto simp: find_None_iff)
  then have "y \<in> set ys" "P y" by (auto simp: find_Some_iff)
  with u s x have "x = y" by auto
  with Some y show ?thesis by simp
qed

text \<open>
  Claim C10. On a game version with minor version 12 the two predicates are mutually
  exclusive: the first strategy accepts only if \<open>isOneDotTwelveFG2\<close> holds of the
  loader version, the second only if it does not, so never both; and selection does not
  depend on the order of the table: the loop over any table with the same entries (in
  particular the table reversed) answers what \<open>getNeoForgeResolver\<close> answers.
\<close>

theorem minor_12_predicates_exclusive:
  assumes "getMinor mv = 12"
  shows "(NeoForgeGradle2Adapter_isForVersion (versionUtil E) mv nv \<longrightarrow> isOneDotTwelveFG2 (versionUtil E) nv)
       \<and> (NeoForgeGradle3Adapter_isForVersion (versionUtil E) mv nv \<longrightarrow> \<not> isOneDotTwelveFG2 (versionUtil E) nv)
       \<and> \<not> (NeoForgeGradle2Adapter_isForVersion (versionUtil E) mv nv
            \<and> NeoForgeGradle3Adapter_isForVersion (versionUtil E) mv nv)
       \<and> (\<forall>tbl. set tbl = set NEOFORGE_ADAPTER_IMPL \<longrightarrow>
             resolverLoop E tbl mv nv a r u d i = getNeoForgeResolver E mv nv a r u d i)"
proof -
  let ?P = "\<lambda>c. isForVersion (versionUtil E) c mv nv"
  have ex: "\<not> (NeoForgeGradle2Adapter_isForVersion (versionUtil E) mv nv
            \<and> NeoForgeGradle3Adapter_isForVersion (versionUtil E) mv nv)"
    using assms by (rule exclusive_12)
  have uniq: "\<forall>x \<in> set tbl. \<forall>y \<in> set tbl. ?P x \<longrightarrow> ?P y \<longrightarrow> x = y" for tbl
  proof (intro ballI impI)
    fix x y assume "?P x" "?P y"
    with ex show "x = y" by (cases x; cases y) auto
  qed
  have "resolverLoop E tbl mv nv a r u d i = getNeoForgeResolver E mv nv a r u d i"
    if "set tbl = set NEOFORGE_ADAPTER_IMPL" for tbl
    unfolding getNeoForgeResolver_def resolverLoop_find
    using find_unique[OF uniq that] by simp
  moreover have "NeoForgeGradle2Adapter_isForVersion (versionUtil E) mv nv \<longrightarrow> isOneDotTwelveFG2 (versionUtil E) nv"
    using assms by (simp add: NeoForgeGradle2Adapter_isForVersion_def)
  moreover have "NeoForgeGradle3Adapter_isForVersion (versionUtil E) mv nv \<longrightarrow> \<not> isOneDotTwelveFG2 (versionUtil E) nv"
    using assms by (simp add: NeoForgeGradle3Adapter_isForVersion_def)
  ultimately show ?thesis using ex by blast
qed

theorem minor_12_predicates_exclusive_witness:
  "getMinor mc_1_12_2 = 12
   \<and> NeoForgeGradle2Adapter_isForVersion (versionUtil env0) mc_1_12_2 ''14.23.5.2847''
   \<and> \<not> NeoForgeGradle3Adapter_isForVersion (versionUtil env0) mc_1_12_2 ''14.23.5.2847''
   \<and> resolverLoop env0 [NeoForgeGradle3Adapter, NeoForgeGradle2Adapter] mc_1_12_2 ''14.23.5.2847''
        ''/abs'' ''rel'' ''http://host/'' False False
      = getNeoForgeResolver env0 mc_1_12_2 ''14.23.5.2847'' ''/abs'' ''rel'' ''http://host/'' False False"
proof -
  have m: "getMinor mc_1_12_2 = 12" by (simp add: mc_1_12_2_def)
  have g2: "NeoForgeGradle2Adapter_isForVersion (versionUtil env0) mc_1_12_2 ''14.23.5.2847''"
    by (simp add: env0_defs mc_1_12_2_def NeoForgeGradle2Adapter_isForVersion_def)
  note t = minor_12_predicates_exclusive [OF m, of env0 "''14.23.5.2847''" "''/abs''" "''rel''" "''http://host/''" False False]
  from t have g3: "\<not> NeoForgeGradle3Adapter_isForVersion (versionUtil env0) mc_1_12_2 ''14.23.5.2847''"
    using g2 by blast
  from t have "set [NeoForgeGradle3Adapter, NeoForgeGradle2Adapter] = set NEOFORGE_ADAPTER_IMPL \<longrightarrow>
      resolverLoop env0 [NeoForgeGradle3Adapter, NeoForgeGradle2Adapter] mc_1_12_2 ''14.23.5.2847''
        ''/abs'' ''rel'' ''http://host/'' False False
      = getNeoForgeResolver env0 mc_1_12_2 ''14.23.5.2847'' ''/abs'' ''rel'' ''http://host/'' False False"
    by blast
  moreover have "set [NeoForgeGradle3Adapter, NeoForgeGradle2Adapter] = set NEOFORGE_ADAPTER_IMPL"
    by (auto simp: NEOFORGE_ADAPTER_IMPL_def)
  ultimately show ?thesis using m g2 g3 by blast
qed

section \<open>Reconciling the expected files\<close>







section \<open>The library steps of the direct-extraction paths\<close>

text \<open>Finding the extension of a legacy library reads the world and leaves it as it is.\<close>

lemma probeLocal_world: "snd (probeLocal E lib exts w) = w"
  by (induction exts) (simp_all add: ret_def bind_io_def artifactExists_def pathExists_def)

lemma probeRemote_world: "snd (probeRemote E lib exts w) = w"
  by (induction exts) (simp_all add: ret_def throw_def split: sum.splits)

lemma determineExtension_world: "snd (determineExtension E lib w) = w"
proof (cases "probeLocal E lib [''jar.pack.xz'', ''jar''] w")
  case (Pair r w')
  with probeLocal_world [of E lib "[''jar.pack.xz'', ''jar'']" w] have w': "w' = w" by simp
  show ?thesis
  proof (cases "probeRemote E lib [''jar.pack.xz'', ''jar''] w")
    case (Pair r2 w2)
    with probeRemote_world [of E lib "[''jar.pack.xz'', ''jar'']" w] have w2: "w2 = w" by simp
    from \<open>probeLocal E lib [''jar.pack.xz'', ''jar''] w = (r, w')\<close> w' Pair w2 show ?thesis
      by (simp add: determineExtension_def bind_io_def ret_def Let_def
          del: probeLocal.simps probeRemote.simps
          split: sum.splits option.splits)
  qed
qed

lemma probeLocal_checksums: "probeLocal E (lib\<lparr>checksums := cs\<rparr>) exts = probeLocal E lib exts"
  by (induction exts) (simp_all cong: if_cong)

lemma probeRemote_checksums: "probeRemote E (lib\<lparr>checksums := cs\<rparr>) exts = probeRemote E lib exts"
  by (induction exts) (simp_all cong: if_cong sum.case_cong)

lemma determineExtension_checksums:
  "determineExtension E (lib\<lparr>checksums := cs\<rparr>) = determineExtension E lib"
  by (simp add: determineExtension_def probeLocal_checksums probeRemote_checksums
      del: probeLocal.simps probeRemote.simps)

text \<open>
  The legacy step when the local copy is used: the file exists, and either the extension is
  the compressed one, or the record does not declare exactly one checksum, or the one
  checksum is the SHA-1 of the file.
\<close>

lemma libraryFG2_local:
  assumes det: "determineExtension E lib w = (Inr ext, w)"
      and present: "fs w (getArtifactById (libRepo E) (lib2_name lib) ext) = Some (File b)"
      and keep: "ext = ''jar.pack.xz'' \<or> (\<forall>c. checksums lib \<noteq> Some [c])
                 \<or> checksums lib = Some [sha1 (platform E) b]"
  shows "libraryFG2 E this lib w =
           (case getMavenComponents (mavenUtil E) (lib2_name lib) of
              Inl e \<Rightarrow> (Inl e, w)
            | Inr mc \<Rightarrow>
                (Inr (libraryModule E this mc ext b (length b),
                      if ext = ''jar.pack.xz''
                      then Some (properId E mc ext, getArtifactById (libRepo E) (lib2_name lib) ext)
                      else None), w))"
proof (cases "ext = ''jar.pack.xz''")
  case True
  with det present show ?thesis
    by (simp add: libraryFG2_def bind_io_def artifactExists_def pathExists_def readFile_def
        lstat_def ret_def throw_def Let_def split: sum.splits)
next
  case False
  with keep have k: "(\<forall>c. checksums lib \<noteq> Some [c]) \<or> checksums lib = Some [sha1 (platform E) b]"
    by simp
  from k show ?thesis
  proof
    assume "\<forall>c. checksums lib \<noteq> Some [c]"
    with det present False show ?thesis
      by (simp add: libraryFG2_def bind_io_def artifactExists_def pathExists_def readFile_def
          lstat_def ret_def throw_def Let_def split: sum.splits option.splits list.splits)
  next
    assume "checksums lib = Some [sha1 (platform E) b]"
    with det present False show ?thesis
      by (simp add: libraryFG2_def bind_io_def artifactExists_def pathExists_def readFile_def
          lstat_def ret_def throw_def Let_def split: sum.splits)
  qed
qed

text \<open>
  The legacy step when a download is queued: the file does not exist, or the extension is
  the plain one and the one declared checksum is not the SHA-1 of the file.
\<close>

lemma libraryFG2_download:
  assumes det: "determineExtension E lib w = (Inr ext, w)"
      and queue: "fs w (getArtifactById (libRepo E) (lib2_name lib) ext) = None
                  \<or> (\<exists>b c. fs w (getArtifactById (libRepo E) (lib2_name lib) ext) = Some (File b)
                        \<and> ext \<noteq> ''jar.pack.xz'' \<and> checksums lib = Some [c]
                        \<and> sha1 (platform E) b \<noteq> c)"
  shows "libraryFG2 E this lib w =
           (let w1 = w\<lparr>trace := trace w @ [Download (legacyRequest lib ext)]\<rparr> in
            case downloaded (libRepo E) (legacyRequest lib ext) (fs w) of
              Inl e \<Rightarrow> (Inl e, w1)
            | Inr f \<Rightarrow>
                (case f (getArtifactById (libRepo E) (lib2_name lib) ext) of
                   None \<Rightarrow> (Inl (ENOENT (getArtifactById (libRepo E) (lib2_name lib) ext)), w1\<lparr>fs := f\<rparr>)
                 | Some Dir \<Rightarrow> (Inl (EISDIR (getArtifactById (libRepo E) (lib2_name lib) ext)), w1\<lparr>fs := f\<rparr>)
                 | Some (File b') \<Rightarrow>
                     (case getMavenComponents (mavenUtil E) (lib2_name lib) of
                        Inl e \<Rightarrow> (Inl e, w1\<lparr>fs := f\<rparr>)
                      | Inr mc \<Rightarrow>
                          (Inr (libraryModule E this mc ext b' (length b'),
                                if ext = ''jar.pack.xz''
                                then Some (properId E mc ext,
                                           getArtifactById (libRepo E) (lib2_name lib) ext)
                                else None), w1\<lparr>fs := f\<rparr>))))"
  using queue
proof
  assume "fs w (getArtifactById (libRepo E) (lib2_name lib) ext) = None"
  with det show ?thesis
    by (simp add: libraryFG2_def legacyRequest_def bind_io_def artifactExists_def pathExists_def
        readFile_def lstat_def ret_def throw_def Let_def downloadArtifactById_def download_def
        split: sum.splits option.splits node.splits)
next
  assume "\<exists>b c. fs w (getArtifactById (libRepo E) (lib2_name lib) ext) = Some (File b)
                        \<and> ext \<noteq> ''jar.pack.xz'' \<and> checksums lib = Some [c]
                        \<and> sha1 (platform E) b \<noteq> c"
  then obtain b c where "fs w (getArtifactById (libRepo E) (lib2_name lib) ext) = Some (File b)"
     "ext \<noteq> ''jar.pack.xz''" "checksums lib = Some [c]" "sha1 (platform E) b \<noteq> c"
    by blast
  with det show ?thesis
    by (simp add: libraryFG2_def legacyRequest_def bind_io_def artifactExists_def pathExists_def
        readFile_def lstat_def ret_def throw_def Let_def downloadArtifactById_def download_def
        split: sum.splits option.splits node.splits)
qed

lemma libraryFG3_download:
  assumes "fs w (getArtifactById (libRepo E) (lib3_name lib) ''jar'') = None
           \<or> (\<exists>b. fs w (getArtifactById (libRepo E) (lib3_name lib) ''jar'') = Some (File b)
                  \<and> sha1 (platform E) b \<noteq> la_sha1 (downloads_artifact lib))"
  shows "libraryFG3 E this lib w =
           (let r = Direct (la_url (downloads_artifact lib)) (la_path (downloads_artifact lib));
                w1 = w\<lparr>trace := trace w @ [Download r]\<rparr> in
            case downloaded (libRepo E) r (fs w) of
              Inl e \<Rightarrow> (Inl e, w1)
            | Inr f \<Rightarrow>
                (case f (getArtifactById (libRepo E) (lib3_name lib) ''jar'') of
                   None \<Rightarrow> (Inl (ENOENT (getArtifactById (libRepo E) (lib3_name lib) ''jar'')), w1\<lparr>fs := f\<rparr>)
                 | Some Dir \<Rightarrow> (Inl (EISDIR (getArtifactById (libRepo E) (lib3_name lib) ''jar'')), w1\<lparr>fs := f\<rparr>)
                 | Some (File b') \<Rightarrow>
                     (case getMavenComponents (mavenUtil E) (lib3_name lib) of
                        Inl e \<Rightarrow> (Inl e, w1\<lparr>fs := f\<rparr>)
                      | Inr mc \<Rightarrow>
                          (Inr (libraryModule E this mc ''jar'' b' (length b')), w1\<lparr>fs := f\<rparr>))))"
  using assms
proof
  assume "fs w (getArtifactById (libRepo E) (lib3_name lib) ''jar'') = None"
  then show ?thesis
    by (simp add: libraryFG3_def bind_io_def artifactExists_def pathExists_def
        readFile_def lstat_def ret_def throw_def Let_def downloadArtifactDirect_def download_def
        split: sum.splits option.splits node.splits)
next
  assume "\<exists>b. fs w (getArtifactById (libRepo E) (lib3_name lib) ''jar'') = Some (File b)
                  \<and> sha1 (platform E) b \<noteq> la_sha1 (downloads_artifact lib)"
  then obtain b where "fs w (getArtifactById (libRepo E) (lib3_name lib) ''jar'') = Some (File b)"
      "sha1 (platform E) b \<noteq> la_sha1 (downloads_artifact lib)"
    by blast
  then show ?thesis
    by (simp add: libraryFG3_def bind_io_def artifactExists_def pathExists_def
        readFile_def lstat_def ret_def throw_def Let_def downloadArtifactDirect_def download_def
        split: sum.splits option.splits node.splits)
qed

text \<open>And for the loader's universal jar, whose declared hash is the one of the manifest's own record.\<close>

lemma universalModule_local:
  assumes "fs w p = Some (File b)"
      and "sha1 (platform E) b = la_sha1 (downloads_artifact neoforgeMdl)"
  shows "universalModule E this p neoforgeMdl w = (Inr (rootModule E this b (length b)), w)"
  using assms
  by (simp add: universalModule_def neoforgeUniversalBuffer_def localUniversalBuffer_def
      bind_io_def artifactExists_def pathExists_def readFile_def lstat_def ret_def)


lemma libraryFG2_packxz_ignores_checksums:
  assumes det: "determineExtension E lib w = (Inr ''jar.pack.xz'', w)"
  shows "libraryFG2 E this (lib\<lparr>checksums := cs\<rparr>) w = libraryFG2 E this lib w"
  using det
  by (simp add: libraryFG2_def determineExtension_checksums bind_io_def Let_def cong: if_cong)

section \<open>The installer's output\<close>

lemma verifyInstallerRan_missing:
  assumes "fs w (getVersionManifestPath E this dir) = None"
  shows "verifyInstallerRan E this dir w =
           (Inl (Error (''NeoForge was either not installed or installed to the wrong location. When the neoforge installer opens, you MUST set the installation directory to '' @ dir)),
            w\<lparr>fs := (\<lambda>p. if p = dir \<or> under dir p then None else fs w p)\<rparr>)"
  using assms
  by (simp add: verifyInstallerRan_def bind_io_def pathExists_def remove_def throw_def Let_def)

text \<open>
  Claim C5. When the first part of \<^verbatim>\<open>processWithInstaller\<close> (cache check and installer
  run) ends in a world where the generated version manifest does not exist at its path
  inside the installer output directory, the run fails with the error of
  \<open>verifyInstallerRan\<close>, and in the world it leaves behind the output directory and
  every path below it are gone; every other path and the trace are as they were after the
  installer step.
\<close>

theorem installer_output_missing_removes_directory:
  assumes "installerOutput E this installerPath w = (Inr dir, w1)"
      and "fs w1 (getVersionManifestPath E this dir) = None"
  shows "\<exists>w'. processWithInstaller E this installerPath w =
           (Inl (Error (''NeoForge was either not installed or installed to the wrong location. When the neoforge installer opens, you MUST set the installation directory to '' @ dir)), w')
         \<and> verifyInstallerRan E this dir w1 =
           (Inl (Error (''NeoForge was either not installed or installed to the wrong location. When the neoforge installer opens, you MUST set the installation directory to '' @ dir)), w')
         \<and> fs w' dir = None
         \<and> (\<forall>p. under dir p \<longrightarrow> fs w' p = None)
         \<and> (\<forall>p. p \<noteq> dir \<and> \<not> under dir p \<longrightarrow> fs w' p = fs w1 p)
         \<and> trace w' = trace w1"
proof -
  let ?w' = "w1\<lparr>fs := (\<lambda>p. if p = dir \<or> under dir p then None else fs w1 p)\<rparr>"
  have v: "verifyInstallerRan E this dir w1 =
           (Inl (Error (''NeoForge was either not installed or installed to the wrong location. When the neoforge installer opens, you MUST set the installation directory to '' @ dir)), ?w')"
    using assms(2) by (rule verifyInstallerRan_missing)
  have "processWithInstaller E this installerPath w =
           (Inl (Error (''NeoForge was either not installed or installed to the wrong location. When the neoforge installer opens, you MUST set the installation directory to '' @ dir)), ?w')"
    unfolding processWithInstaller_def
    using assms(1) v by (simp add: bind_io_def)
  with v show ?thesis by auto
qed

lemma new_gradle3_1_20_4:
  "new env0 NeoForgeGradle3Adapter ''/repo'' ''repo'' ''http://host/'' mc_1_20_4 ''20.4.80'' False False
     = Inr (Gradle3 gradle3_1_20_4, [])"
  by (simp add: NeoForgeResolver_new_def checkSecurity_def unsafe_def isVulnerable_def
      gradle3_1_20_4_def mc_1_20_4_def NeoForgeResolver.extend_def NeoForgeResolver.defs env0_defs)

theorem installer_output_missing_removes_directory_witness:
  "installerOutput env0 gradle3_1_20_4 ''/repo/lib/installer.jar'' world_empty_cache
     = (Inr ''/repo/cache/undefined'', world_empty_cache)
   \<and> fs world_empty_cache (getVersionManifestPath env0 gradle3_1_20_4 ''/repo/cache/undefined'') = None
   \<and> fst (processWithInstaller env0 gradle3_1_20_4 ''/repo/lib/installer.jar'' world_empty_cache)
       = Inl (Error (''NeoForge was either not installed or installed to the wrong location. When the neoforge installer opens, you MUST set the installation directory to '' @ ''/repo/cache/undefined''))
   \<and> fs (snd (processWithInstaller env0 gradle3_1_20_4 ''/repo/lib/installer.jar'' world_empty_cache))
        ''/repo/cache/undefined'' = None
   \<and> fs (snd (processWithInstaller env0 gradle3_1_20_4 ''/repo/lib/installer.jar'' world_empty_cache))
        ''/repo/cache/undefined/launcher_profiles.json'' = None"
proof -
  have g: "artifactVersion gradle3_1_20_4 = None" "invalidateCache gradle3_1_20_4 = False"
    "minecraftVersion gradle3_1_20_4 = mc_1_20_4" "neoforgeVersion gradle3_1_20_4 = ''20.4.80''"
    by (simp_all add: gradle3_1_20_4_def configure_def Let_def)
  have a: "installerOutput env0 gradle3_1_20_4 ''/repo/lib/installer.jar'' world_empty_cache
     = (Inr ''/repo/cache/undefined'', world_empty_cache)"
    by (simp add: installerOutput_def g env0_def template_def bind_io_def pathExists_def
        world_empty_cache_def ret_def Let_def)
  have b: "fs world_empty_cache (getVersionManifestPath env0 gradle3_1_20_4 ''/repo/cache/undefined'') = None"
    by (simp add: getVersionManifestPath_def g env0_defs world_empty_cache_def join_def mc_1_20_4_def)
  have u: "under ''/repo/cache/undefined'' ''/repo/cache/undefined/launcher_profiles.json''"
    by (simp add: under_def startsWith_def)
  from installer_output_missing_removes_directory [OF a b] u a b
  show ?thesis by auto
qed


section \<open>Which legacy libraries are verified\<close>

lemma libraryFG2_local_world:
  assumes "determineExtension E lib w = (Inr ext, w)"
      and "fs w (getArtifactById (libRepo E) (lib2_name lib) ext) = Some (File b)"
      and "ext = ''jar.pack.xz'' \<or> (\<forall>c. checksums lib \<noteq> Some [c])
           \<or> checksums lib = Some [sha1 (platform E) b]"
  shows "snd (libraryFG2 E this lib w) = w"
  unfolding libraryFG2_local [OF assms]
  by (simp split: sum.splits)

lemma libraryFG2_download_trace:
  assumes "determineExtension E lib w = (Inr ext, w)"
      and "fs w (getArtifactById (libRepo E) (lib2_name lib) ext) = None
           \<or> (\<exists>b c. fs w (getArtifactById (libRepo E) (lib2_name lib) ext) = Some (File b)
                  \<and> ext \<noteq> ''jar.pack.xz'' \<and> checksums lib = Some [c]
                  \<and> sha1 (platform E) b \<noteq> c)"
  shows "trace (snd (libraryFG2 E this lib w)) = trace w @ [Download (legacyRequest lib ext)]"
  unfolding libraryFG2_download [OF assms]
  by (simp add: Let_def split: sum.splits option.splits node.splits)

text \<open>
  Claim C6. In the library loop of the legacy strategy, with \<open>ext\<close> the extension that
  \<open>determineExtension\<close> finds for the record and \<open>lp\<close> its local path:
  \<^item> when \<open>ext\<close> is the compressed extension, the declared checksums are not read (the step
    does the same for any value of the record's \<^verbatim>\<open>checksums\<close>), and only existence
    decides: an existing file is used as it is, an absent one is downloaded;
  \<^item> when the record does not declare exactly one checksum, an existing file is used as it
    is;
  \<^item> when \<open>ext\<close> is the plain extension and exactly one checksum is declared, an existing
    file is used when its SHA-1 is that checksum and downloaded anew when it is not.
\<close>

theorem legacy_hash_check_guard:
  assumes "determineExtension E lib w = (Inr ext, w)"
  shows "(ext = ''jar.pack.xz'' \<longrightarrow>
            (\<forall>cs. libraryFG2 E this (lib\<lparr>checksums := cs\<rparr>) w = libraryFG2 E this lib w)
          \<and> (\<forall>b. fs w (getArtifactById (libRepo E) (lib2_name lib) ext) = Some (File b)
                \<longrightarrow> snd (libraryFG2 E this lib w) = w)
          \<and> (fs w (getArtifactById (libRepo E) (lib2_name lib) ext) = None
                \<longrightarrow> trace (snd (libraryFG2 E this lib w))
                      = trace w @ [Download (legacyRequest lib ext)]))
       \<and> (\<forall>b. (\<forall>c. checksums lib \<noteq> Some [c])
              \<and> fs w (getArtifactById (libRepo E) (lib2_name lib) ext) = Some (File b)
            \<longrightarrow> snd (libraryFG2 E this lib w) = w)
       \<and> (\<forall>b c. ext \<noteq> ''jar.pack.xz'' \<and> checksums lib = Some [c]
              \<and> fs w (getArtifactById (libRepo E) (lib2_name lib) ext) = Some (File b)
            \<longrightarrow> (sha1 (platform E) b = c \<longrightarrow> snd (libraryFG2 E this lib w) = w)
               \<and> (sha1 (platform E) b \<noteq> c
                    \<longrightarrow> trace (snd (libraryFG2 E this lib w))
                          = trace w @ [Download (legacyRequest lib ext)]))"
proof (intro conjI allI impI)
  fix cs
  assume "ext = ''jar.pack.xz''"
  with assms show "libraryFG2 E this (lib\<lparr>checksums := cs\<rparr>) w = libraryFG2 E this lib w"
    by (simp add: libraryFG2_packxz_ignores_checksums)
next
  fix b
  assume "ext = ''jar.pack.xz''"
     and "fs w (getArtifactById (libRepo E) (lib2_name lib) ext) = Some (File b)"
  then show "snd (libraryFG2 E this lib w) = w"
    using libraryFG2_local_world [OF assms, of b this] by simp
next
  assume "fs w (getArtifactById (libRepo E) (lib2_name lib) ext) = None"
  then show "trace (snd (libraryFG2 E this lib w)) = trace w @ [Download (legacyRequest lib ext)]"
    using libraryFG2_download_trace [OF assms, of this] by simp
next
  fix b
  assume "(\<forall>c. checksums lib \<noteq> Some [c])
              \<and> fs w (getArtifactById (libRepo E) (lib2_name lib) ext) = Some (File b)"
  then show "snd (libraryFG2 E this lib w) = w"
    using libraryFG2_local_world [OF assms, of b this] by simp
next
  fix b c
  assume a: "ext \<noteq> ''jar.pack.xz'' \<and> checksums lib = Some [c]
              \<and> fs w (getArtifactById (libRepo E) (lib2_name lib) ext) = Some (File b)"
  {
    assume "sha1 (platform E) b = c"
    with a show "snd (libraryFG2 E this lib w) = w"
      using libraryFG2_local_world [OF assms, of b this] by simp
  }
  {
    assume "sha1 (platform E) b \<noteq> c"
    with a have "\<exists>b c. fs w (getArtifactById (libRepo E) (lib2_name lib) ext) = Some (File b)
                  \<and> ext \<noteq> ''jar.pack.xz'' \<and> checksums lib = Some [c]
                  \<and> sha1 (platform E) b \<noteq> c"
      by blast
    then show "trace (snd (libraryFG2 E this lib w)) = trace w @ [Download (legacyRequest lib ext)]"
      using libraryFG2_download_trace [OF assms, of this] by simp
  }
qed

text \<open>The extensions of the two sample records in the sample world.\<close>

lemma determineExtension_scala:
  "determineExtension env0 lib_scala world_stale = (Inr ''jar.pack.xz'', world_stale)"
  by (simp add: determineExtension_def lib_scala_def world_stale_def env0_defs byId0_def
      components0_def normalizedPath0_def template_def
      bind_io_def artifactExists_def pathExists_def ret_def Let_def)

lemma determineExtension_guava:
  "determineExtension env0 lib_guava world_stale = (Inr ''jar'', world_stale)"
  by (simp add: determineExtension_def lib_guava_def ret_def)

theorem legacy_hash_check_guard_witness:
  "determineExtension env0 lib_scala world_stale = (Inr ''jar.pack.xz'', world_stale)
   \<and> fs world_stale ''/repo/lib/org/scala-lang/scala-library/2.11.1/scala-library-2.11.1.jar.pack.xz'' = Some (File ''stale'')
   \<and> snd (libraryFG2 env0 legacy_1_11_2 lib_scala world_stale) = world_stale
   \<and> libraryFG2 env0 legacy_1_11_2 (lib_scala\<lparr>checksums := None\<rparr>) world_stale
       = libraryFG2 env0 legacy_1_11_2 lib_scala world_stale
   \<and> determineExtension env0 lib_guava world_stale = (Inr ''jar'', world_stale)
   \<and> fs world_stale ''/repo/lib/com/google/guava/guava/17.0/guava-17.0.jar'' = Some (File ''stale'')
   \<and> checksums lib_guava = Some [''declared'']
   \<and> sha1 (platform env0) ''stale'' \<noteq> ''declared''
   \<and> trace (snd (libraryFG2 env0 legacy_1_11_2 lib_guava world_stale))
       = trace world_stale @ [Download (legacyRequest lib_guava ''jar'')]"
proof -
  have p1: "getArtifactById (libRepo env0) (lib2_name lib_scala) ''jar.pack.xz''
              = ''/repo/lib/org/scala-lang/scala-library/2.11.1/scala-library-2.11.1.jar.pack.xz''"
   and p2: "getArtifactById (libRepo env0) (lib2_name lib_guava) ''jar''
              = ''/repo/lib/com/google/guava/guava/17.0/guava-17.0.jar''"
    by (simp_all add: env0_defs byId0_def components0_def normalizedPath0_def template_def
        lib_scala_def lib_guava_def)
  have f1: "fs world_stale ''/repo/lib/org/scala-lang/scala-library/2.11.1/scala-library-2.11.1.jar.pack.xz'' = Some (File ''stale'')"
   and f2: "fs world_stale ''/repo/lib/com/google/guava/guava/17.0/guava-17.0.jar'' = Some (File ''stale'')"
    by (simp_all add: world_stale_def)
  have c: "checksums lib_guava = Some [''declared'']" by (simp add: lib_guava_def)
  have h: "sha1 (platform env0) ''stale'' \<noteq> ''declared''" by (simp add: env0_defs)
  note t1 = legacy_hash_check_guard [OF determineExtension_scala, of legacy_1_11_2]
  note t2 = legacy_hash_check_guard [OF determineExtension_guava, of legacy_1_11_2]
  from t1 have a1: "snd (libraryFG2 env0 legacy_1_11_2 lib_scala world_stale) = world_stale"
    using f1 by (simp add: p1)
  from t1 have a2: "libraryFG2 env0 legacy_1_11_2 (lib_scala\<lparr>checksums := None\<rparr>) world_stale
       = libraryFG2 env0 legacy_1_11_2 lib_scala world_stale"
    by simp
  from t2 have a3: "trace (snd (libraryFG2 env0 legacy_1_11_2 lib_guava world_stale))
       = trace world_stale @ [Download (legacyRequest lib_guava ''jar'')]"
    using f2 c h by (simp add: p2)
  from a1 a2 a3 f1 f2 c h determineExtension_scala determineExtension_guava
  show ?thesis by (intro conjI)
qed

section \<open>Reuse and redownload\<close>




section \<open>The security gate\<close>

text \<open>
  Claim C8, evaluated at game version 1.12.2 and any loader version. The version is in the
  vulnerable range, but the table \<open>patchMatrix\<close> has entries for 21 and 20 only, so the
  minimum that the gate looks up for it is \<^verbatim>\<open>undefined\<close>: the gate hands \<open>None\<close> to
  \<open>versionGte\<close>, throws whatever that call throws, and otherwise shows the advisory
  exactly when the call answers false. No minimum safe loader version takes part.
\<close>

theorem checkSecurity_minimum_undefined:
  "isVulnerable 1 12 \<and> patchMatrix 12 = None
   \<and> checkSecurity vu \<lparr>getMajor = 1, getMinor = 12, getRevision = 2, toString = ''1.12.2''\<rparr> nv
     = (case versionGte vu nv None of
          Inl e \<Rightarrow> Inl e
        | Inr b \<Rightarrow> Inr (if b then [] else advisory 1 12))"
  by (simp add: checkSecurity_def unsafe_def isVulnerable_def hasPatch_def patchMatrix_def
      split: sum.splits)


section \<open>The loader's own record on the direct-extraction path\<close>

lemma gradle3_1_18_2_fields:
  "generatedFiles gradle3_1_18_2 = None"
  "artifactVersion gradle3_1_18_2 = None"
  "minecraftVersion gradle3_1_18_2 = mc_1_18_2"
  "neoforgeVersion gradle3_1_18_2 = ''40.2.0''"
  "baseUrl gradle3_1_18_2 = ''http://host/''"
  by (simp_all add: gradle3_1_18_2_def configure_def Let_def isExecutableJar_def
      isGreaterThanOrEqualTo_def mc_1_18_2_def env0_defs)

lemma librariesFG3Loop_keeps_own_record:
  "\<not> startsWith (lib3_name lib) ''net.neoforge.maven:neo:'' \<Longrightarrow>
   librariesFG3Loop E this (lib # rest) root =
     bind_io (libraryFG3 E this lib) (\<lambda>m. librariesFG3Loop E this rest (push_subModule m root))"
  by simp

text \<open>
  Claim C9, evaluated on the sample manifest. \<^verbatim>\<open>processWithoutInstaller\<close> finds the
  loader's own record by the prefix \<^verbatim>\<open>net.neoforge.maven:neoforge:\<close>, but its library loop
  skips the prefix \<^verbatim>\<open>net.neoforge.maven:neo:\<close>, which the own record does not have: the
  record goes through the loop body like any library (here it is downloaded) and the root
  gets a library module for it, between the version-manifest module and the module of the
  other library.
\<close>

theorem direct_extraction_emits_own_record:
  "find (\<lambda>val. startsWith (lib3_name val) ''net.neoforge.maven:neoforge:'') (libraries3 manifest3)
     = Some lib_self
   \<and> startsWith (lib3_name lib_self) ''net.neoforge.maven:neo:'' = False
   \<and> map_sum id (\<lambda>m. map_option (map (\<lambda>s. (mod_id s, mod_type s))) (subModules m))
         (fst (processWithoutInstaller env0 gradle3_1_18_2
                 ''/repo/lib/net/neoforged/neoforge/undefined/neoforge-undefined-installer.jar''
                 world_direct))
       = Inr (Some [(None, VersionManifest),
                    (Some ''net.neoforge.maven:neoforge:20.2.86@jar'', Library),
                    (Some ''org.ow2.asm:asm:9.6@jar'', Library)])
   \<and> trace (snd (processWithoutInstaller env0 gradle3_1_18_2
                 ''/repo/lib/net/neoforged/neoforge/undefined/neoforge-undefined-installer.jar''
                 world_direct))
       = [Download (Direct (la_url (downloads_artifact lib_self)) (la_path (downloads_artifact lib_self))),
          Download (Direct (la_url (downloads_artifact lib_asm)) (la_path (downloads_artifact lib_asm)))]"
proof -
  let ?i = "''/repo/lib/net/neoforged/neoforge/undefined/neoforge-undefined-installer.jar''"
  let ?u = "''/repo/lib/net/neoforged/neoforge/undefined/neoforge-undefined-universal.jar''"
  let ?d = "''/repo/versions/1.18.2-neoforge-40.2.0.json''"
  let ?s = "''/repo/lib/net/neoforge/maven/neoforge/20.2.86/neoforge-20.2.86.jar''"
  let ?a = "''/repo/lib/org/ow2/asm/asm/9.6/asm-9.6.jar''"
  have f: "find (\<lambda>val. startsWith (lib3_name val) ''net.neoforge.maven:neoforge:'') (libraries3 manifest3)
     = Some lib_self"
    by (simp add: manifest3_def lib_self_def startsWith_def)
  have n: "startsWith (lib3_name lib_self) ''net.neoforge.maven:neo:'' = False"
          "startsWith (lib3_name lib_asm) ''net.neoforge.maven:neo:'' = False"
    by (simp_all add: lib_self_def lib_asm_def startsWith_def)
  have paths:
    "getLocalNeoForge (libRepo env0) None ''universal'' = ?u"
    "getVersionManifest (versionRepo env0) mc_1_18_2 ''40.2.0'' = ?d"
    "getArtifactById (libRepo env0) (lib3_name lib_self) ''jar'' = ?s"
    "getArtifactById (libRepo env0) (lib3_name lib_asm) ''jar'' = ?a"
    by (simp_all add: env0_defs byComponents0_def byId0_def components0_def normalizedPath0_def
        template_def mc_1_18_2_def lib_self_def lib_asm_def)
  \<comment> \<open>the manifest is read and saved\<close>
  define w1 where "w1 = world_direct\<lparr>fs := (fs world_direct)(''/repo/versions'' \<mapsto> Dir, ?d \<mapsto> File ''{}'')\<rparr>"
  have fs1: "fs w1 ?u = Some (File ''universal'')" "fs w1 ?d = Some (File ''{}'')"
            "fs w1 ?s = None" "fs w1 ?a = None" "trace w1 = []"
    by (simp_all add: w1_def world_direct_def)
  \<comment> \<open>the universal jar is reused\<close>
  have u: "universalModule env0 gradle3_1_18_2 ?u lib_self w1
             = (Inr (rootModule env0 gradle3_1_18_2 ''universal'' (length ''universal'')), w1)"
    by (rule universalModule_local) (simp_all add: fs1 env0_defs lib_self_def)
  \<comment> \<open>the own record and the library are downloaded\<close>
  define w2 where "w2 = w1\<lparr>trace := [Download (Direct (la_url (downloads_artifact lib_self))
                                                  (la_path (downloads_artifact lib_self)))],
                           fs := (fs w1)(?s \<mapsto> File ''fresh'')\<rparr>"
  define mc_self where "mc_self = \<lparr>mc_group = ''net.neoforge.maven'', mc_artifact = ''neoforge'',
                    mc_version = ''20.2.86'', mc_classifier = None, mc_extension = None\<rparr>"
  define mc_asm where "mc_asm = \<lparr>mc_group = ''org.ow2.asm'', mc_artifact = ''asm'',
                    mc_version = ''9.6'', mc_classifier = None, mc_extension = None\<rparr>"
  have l1: "libraryFG3 env0 gradle3_1_18_2 lib_self w1
             = (Inr (libraryModule env0 gradle3_1_18_2 mc_self ''jar'' ''fresh'' (length ''fresh'')), w2)"
    unfolding libraryFG3_download [of w1 env0 lib_self gradle3_1_18_2, unfolded paths, OF disjI1, OF fs1(3)]
    by (simp add: env0_fields Let_def w2_def mc_self_def downloaded0_def lib_self_def
        components0_def fs1)
  have fs2: "fs w2 ?a = None"
    by (simp add: w2_def fs1)
  define w3 where "w3 = w2\<lparr>trace := trace w2 @ [Download (Direct (la_url (downloads_artifact lib_asm))
                                                  (la_path (downloads_artifact lib_asm)))],
                           fs := (fs w2)(?a \<mapsto> File ''fresh'')\<rparr>"
  have l2: "libraryFG3 env0 gradle3_1_18_2 lib_asm w2
             = (Inr (libraryModule env0 gradle3_1_18_2 mc_asm ''jar'' ''fresh'' (length ''fresh'')), w3)"
    unfolding libraryFG3_download [of w2 env0 lib_asm gradle3_1_18_2, unfolded paths, OF disjI1, OF fs2]
    by (simp add: env0_fields Let_def w3_def mc_asm_def downloaded0_def lib_asm_def
        components0_def)
  have r: "readFile ?i world_direct = (Inr ''{manifest3}'', world_direct)"
    by (simp add: readFile_def world_direct_def)
  have loop: "librariesFG3Loop env0 gradle3_1_18_2 (libraries3 manifest3) root w1
     = (Inr (push_subModule (libraryModule env0 gradle3_1_18_2 mc_asm ''jar'' ''fresh'' (length ''fresh''))
              (push_subModule (libraryModule env0 gradle3_1_18_2 mc_self ''jar'' ''fresh'' (length ''fresh''))
                 root)), w3)" for root
    by (simp add: manifest3_def n bind_io_def l1 l2 ret_def)
  have m: "mkdirs (dirname ?d) world_direct
             = (Inr (), world_direct\<lparr>fs := (fs world_direct)(''/repo/versions'' \<mapsto> Dir)\<rparr>)"
    by (simp add: mkdirs_def dirname_def world_direct_def)
  have wr: "writeFile ?d ''{}'' (world_direct\<lparr>fs := (fs world_direct)(''/repo/versions'' \<mapsto> Dir)\<rparr>)
             = (Inr (), w1)"
    by (simp add: writeFile_def w1_def world_direct_def)
  have rd: "readFile ?d w1 = (Inr ''{}'', w1)" "lstat ?d w1 = (Inr (length ''{}''), w1)"
    by (simp_all add: readFile_def lstat_def fs1)
  have p: "processWithoutInstaller env0 gradle3_1_18_2 ?i world_direct
     = (Inr (push_subModule (libraryModule env0 gradle3_1_18_2 mc_asm ''jar'' ''fresh'' (length ''fresh''))
              (push_subModule (libraryModule env0 gradle3_1_18_2 mc_self ''jar'' ''fresh'' (length ''fresh''))
                (push_subModule
                   (Module None ''Minecraft NeoForge (version.json)'' VersionManifest None
                      (generateArtifact env0 ''{}'' (length ''{}'')
                         (getVersionManifestURL (versionRepo env0) ''http://host/'' mc_1_18_2 ''40.2.0''))
                      None)
                   (rootModule env0 gradle3_1_18_2 ''universal'' (length ''universal''))))), w3)"
    unfolding processWithoutInstaller_def gradle3_1_18_2_fields paths
    by (simp add: bind_io_def getVersionManifestFromJar_def r env0_fields f m wr u rd loop
        ret_def throw_def Let_def
        del: librariesFG3Loop.simps)
  have t: "trace w3 = [Download (Direct (la_url (downloads_artifact lib_self)) (la_path (downloads_artifact lib_self))),
          Download (Direct (la_url (downloads_artifact lib_asm)) (la_path (downloads_artifact lib_asm)))]"
    by (simp add: w3_def w2_def)
  have ids: "map_sum id (\<lambda>m. map_option (map (\<lambda>s. (mod_id s, mod_type s))) (subModules m))
         (fst (processWithoutInstaller env0 gradle3_1_18_2 ?i world_direct))
       = Inr (Some [(None, VersionManifest),
                    (Some ''net.neoforge.maven:neoforge:20.2.86@jar'', Library),
                    (Some ''org.ow2.asm:asm:9.6@jar'', Library)])"
    unfolding p
    by (simp add: push_subModule_def set_subModules_def rootModule_def libraryModule_def
        properId_def env0_fields identifier0_def template_def mc_self_def mc_asm_def)
  from f n(1) ids t show ?thesis unfolding p by simp
qed

section \<open>Batch decompression\<close>










section \<open>The root of the installer-mediated path\<close>


lemma classifierLoop_emits:
  "classifierLoop E this libDir entry cs (tried, located, mdls) w = (Inr (tried', located', mdls'), w')
   \<Longrightarrow> (mdls' = mdls \<and> located' = located)
     \<or> (\<exists>c b s. c \<in> set cs \<and> mdls' = mdls @ [generatedModule E this entry c b s] \<and> located' = True)"
proof (induction cs arbitrary: tried)
  case Nil
  then show ?case by (simp add: ret_def)
next
  case (Cons c cs)
  show ?case
  proof (cases "fs w (targetLocalPath E libDir entry c)")
    case None
    with Cons.prems have "classifierLoop E this libDir entry cs
        (tried @ [targetLocalPath E libDir entry c], located, mdls) w = (Inr (tried', located', mdls'), w')"
      by (simp add: bind_io_def pathExists_def Let_def)
    from Cons.IH [OF this] show ?thesis by auto
  next
    case (Some n)
    with Cons.prems show ?thesis
      by (cases n)
         (auto simp: bind_io_def pathExists_def readFile_def lstat_def copy_def ret_def Let_def)
  qed
qed

lemma generatedFilesLoop_emitted:
  "generatedFilesLoop E this libDir entries mdls w = (Inr out, w')
   \<Longrightarrow> \<exists>per. out = mdls @ concat per
          \<and> list_all2 (\<lambda>e xs. (xs = [] \<and> skipIfNotPresent e = Some True)
                         \<or> (\<exists>c b s. c \<in> set (classifiers e)
                                \<and> xs = [generatedModule E this e c b s])) entries per"
proof (induction entries arbitrary: mdls w)
  case Nil
  then show ?case by (simp add: ret_def)
next
  case (Cons entry rest)
  let ?P = "\<lambda>e xs. (xs = [] \<and> skipIfNotPresent e = Some True)
                         \<or> (\<exists>c b s. c \<in> set (classifiers e)
                                \<and> xs = [generatedModule E this e c b s])"
  obtain r w1 where c: "classifierLoop E this libDir entry (classifiers entry) ([], False, mdls) w = (r, w1)"
    by (cases "classifierLoop E this libDir entry (classifiers entry) ([], False, mdls) w")
  show ?case
  proof (cases r)
    case (Inl e)
    with c Cons.prems show ?thesis by (simp add: bind_io_def)
  next
    case (Inr st)
    obtain tried located mdls1 where st: "st = (tried, located, mdls1)" by (cases st)
    from c Inr st have one: "(mdls1 = mdls \<and> located = False)
        \<or> (\<exists>c b s. c \<in> set (classifiers entry)
               \<and> mdls1 = mdls @ [generatedModule E this entry c b s] \<and> located = True)"
      using classifierLoop_emits by blast
    from c Inr st Cons.prems
    have go: "generatedFilesLoop E this libDir rest mdls1 w1 = (Inr out, w')"
       and ok: "skipIfNotPresent entry = Some True \<or> located"
      by (simp_all add: bind_io_def throw_def split: if_splits)
    from Cons.IH [OF go] obtain per where
      per: "out = mdls1 @ concat per" "list_all2 ?P rest per"
      by blast
    from one show ?thesis
    proof
      assume a: "mdls1 = mdls \<and> located = False"
      with ok have "?P entry []" by simp
      with per(2) have "list_all2 ?P (entry # rest) ([] # per)" by simp
      moreover from per(1) a have "out = mdls @ concat ([] # per)" by simp
      ultimately show ?thesis by blast
    next
      assume "\<exists>c b s. c \<in> set (classifiers entry)
               \<and> mdls1 = mdls @ [generatedModule E this entry c b s] \<and> located = True"
      then obtain c b s where
        a: "c \<in> set (classifiers entry)" "mdls1 = mdls @ [generatedModule E this entry c b s]"
        by blast
      from a(1) have "?P entry [generatedModule E this entry c b s]" by blast
      with per(2) have "list_all2 ?P (entry # rest) ([generatedModule E this entry c b s] # per)"
        by simp
      moreover from per(1) a(2)
      have "out = mdls @ concat ([generatedModule E this entry c b s] # per)" by simp
      ultimately show ?thesis by blast
    qed
  qed
qed

lemma processVersionManifest_module:
  "processVersionManifest E this dir w = (Inr (vmf, vm), w')
   \<Longrightarrow> mod_type vm = VersionManifest \<and> mod_name vm = ''Minecraft NeoForge (version.json)''
     \<and> mod_id vm = artifactVersion this \<and> subModules vm = None"
  by (auto simp: processVersionManifest_def bind_io_def ret_def throw_def Let_def
           split: prod.splits sum.splits option.splits)

lemma processNeoForgeModule_root:
  assumes "processNeoForgeModule E this vmf dir w = (Inr (m, this'), w')"
  shows "\<exists>gfs x xs w1.
           generatedFiles this' = Some gfs
         \<and> generatedFilesLoop E this' (join dir ''libraries'') gfs [] w1 = (Inr (x # xs), w')
         \<and> m = set_subModules (Some xs) (set_type NeoForgeHosted x)
         \<and> (wildcardsInUse this = None \<longrightarrow> this' = this \<and> w1 = w)"
proof -
  from bind_io_InrE [OF assms [unfolded processNeoForgeModule_def Let_def]]
  obtain t w1 where
    a: "(case wildcardsInUse this of
           None \<Rightarrow> ret this
         | Some ws \<Rightarrow>
             if WILDCARD_MCP_VERSION \<in> set ws then
               (case getMCPVersion (arguments_game vmf) of
                  None \<Rightarrow> throw (Error ''MCP Version not found.. did neoforge change their format?'')
                | Some mcpVersion \<Rightarrow>
                    (case generatedFiles this of
                       None \<Rightarrow> throw (TypeError ''Cannot read properties of undefined (reading 'map')'')
                     | Some gfs \<Rightarrow>
                         (case resolveWildcards mcpVersion gfs of
                            Inl e \<Rightarrow> throw e
                          | Inr gfs' \<Rightarrow> ret (this\<lparr>generatedFiles := Some gfs'\<rparr>))))
             else ret this) w = (Inr t, w1)"
    and b: "(case generatedFiles t of
             None \<Rightarrow> throw (TypeError ''undefined is not iterable'')
           | Some gfs \<Rightarrow>
               bind_io (generatedFilesLoop E t (join dir ''libraries'') gfs []) (\<lambda>mdls.
                 case mdls of
                   [] \<Rightarrow> throw (TypeError ''Cannot set properties of undefined (setting 'type')'')
                 | m # ms \<Rightarrow>
                     ret (set_subModules (Some ms) (set_type NeoForgeHosted m), t))) w1
            = (Inr (m, this'), w')"
    by blast
  from a have n: "wildcardsInUse this = None \<longrightarrow> t = this \<and> w1 = w"
    by (auto simp: ret_def)
  from b obtain gfs where g: "generatedFiles t = Some gfs"
    and b': "bind_io (generatedFilesLoop E t (join dir ''libraries'') gfs []) (\<lambda>mdls.
                 case mdls of
                   [] \<Rightarrow> throw (TypeError ''Cannot set properties of undefined (setting 'type')'')
                 | m # ms \<Rightarrow>
                     ret (set_subModules (Some ms) (set_type NeoForgeHosted m), t)) w1
            = (Inr (m, this'), w')"
    by (cases "generatedFiles t") (simp_all add: throw_def)
  from bind_io_InrE [OF b'] obtain mdls w2 where
    l: "generatedFilesLoop E t (join dir ''libraries'') gfs [] w1 = (Inr mdls, w2)"
    and r: "(case mdls of
                   [] \<Rightarrow> throw (TypeError ''Cannot set properties of undefined (setting 'type')'')
                 | m # ms \<Rightarrow>
                     ret (set_subModules (Some ms) (set_type NeoForgeHosted m), t)) w2
            = (Inr (m, this'), w')"
    by blast
  from r obtain x xs where x: "mdls = x # xs"
    by (cases mdls) (simp_all add: throw_def)
  with r have e: "m = set_subModules (Some xs) (set_type NeoForgeHosted x)" "this' = t" "w2 = w'"
    by (simp_all add: ret_def)
  from g l x e n show ?thesis
    by (intro exI [of _ gfs] exI [of _ x] exI [of _ xs] exI [of _ w1]) simp
qed

lemma processWithInstaller_Inr:
  assumes "processWithInstaller E this installerPath w = (Inr root, w')"
  shows "\<exists>dir w2 vmf vm w3 m this' w4 libs w5.
           processVersionManifest E this dir w2 = (Inr (vmf, vm), w3)
         \<and> processNeoForgeModule E this vmf dir w3 = (Inr (m, this'), w4)
         \<and> processLibraries E this' vmf dir w4 = (Inr libs, w5)
         \<and> root = concat_subModules libs (unshift_subModule vm m)"
  using assms unfolding processWithInstaller_def Let_def
  apply (clarsimp simp: ret_def dest!: bind_io_InrE split: prod.splits)
  apply blast
  done

lemma configure_executable:
  assumes "isExecutableJar (minecraftVersion this0)"
  shows "\<exists>rest.
           generatedFiles (configure E this0)
             = Some (\<lparr>gf_name = ''universal jar'', gf_group = NEOFORGE_GROUP (libRepo E),
                      gf_artifact = NEOFORGE_ARTIFACT (libRepo E),
                      gf_version = artifactVersion this0,
                      classifiers = [Some ''universal''], skipIfNotPresent = None,
                      classpath = None\<rparr> # rest)
         \<and> map gf_name rest = [''client jar'', ''client shim'', ''fmlcore'', ''javafmllanguage'',
                                 ''mclanguage'', ''lowcodelanguage'']
         \<and> list_all (\<lambda>e. skipIfNotPresent e = None) rest
         \<and> wildcardsInUse (configure E this0) = wildcardsInUse this0"
  using assms by (simp add: configure_def Let_def)

lemma configure_otherwise_fails:
  assumes "\<not> isExecutableJar (minecraftVersion this0)"
      and "generatedFiles this0 = None" and "wildcardsInUse this0 = None"
      and "artifactVersion this0 = None"
  shows "\<exists>e. processNeoForgeModule E (configure E this0) vmf dir w = (Inl e, w)"
proof (cases "isVersionAcceptable (versionUtil E) (minecraftVersion this0) [19, 20]")
  case False
  with assms show ?thesis
    by (simp add: configure_def Let_def processNeoForgeModule_def bind_io_def ret_def throw_def)
next
  case True
  with assms show ?thesis
    by (cases "getMCPVersion (arguments_game vmf)")
       (simp_all add: configure_def Let_def processNeoForgeModule_def bind_io_def ret_def throw_def)
qed

lemma emitted_required:
  "list_all2 (\<lambda>e xs. (xs = [] \<and> skipIfNotPresent e = Some True)
                         \<or> (\<exists>c b s. c \<in> set (classifiers e)
                                \<and> xs = [generatedModule E this e c b s])) entries per
   \<Longrightarrow> list_all (\<lambda>e. skipIfNotPresent e = None) entries
   \<Longrightarrow> list_all2 (\<lambda>e x. \<exists>c b s. c \<in> set (classifiers e) \<and> x = generatedModule E this e c b s)
         entries (concat per)"
proof (induction entries per rule: list_all2_induct)
  case Nil
  then show ?case by simp
next
  case (Cons e xs entries per)
  then show ?case by (auto, blast)
qed

lemma emitted_names:
  "list_all2 (\<lambda>e x. \<exists>c b s. c \<in> set (classifiers e) \<and> x = generatedModule E this e c b s) entries ms
   \<Longrightarrow> map mod_name ms = map (\<lambda>e. ''Minecraft NeoForge ('' @ gf_name e @ '')'') entries
     \<and> map mod_type ms = map (\<lambda>e. Library) entries"
  by (induction entries ms rule: list_all2_induct) (auto simp: generatedModule_def)

lemma new_gradle3:
  "new E NeoForgeGradle3Adapter absRoot relRoot url mv nv discard invalidate = Inr (Gradle3 this, out)
   \<Longrightarrow> \<exists>this0. this = configure E this0 \<and> artifactVersion this0 = None
              \<and> generatedFiles this0 = None \<and> wildcardsInUse this0 = None
              \<and> minecraftVersion this0 = mv"
  by (auto simp: NeoForgeResolver_new_def NeoForgeResolver.extend_def NeoForgeResolver.defs
           split: sum.splits)

lemma installer_root:
  assumes n: "new E NeoForgeGradle3Adapter absRoot relRoot url mv nv discard invalidate
                = Inr (Gradle3 this, out)"
      and p: "processWithInstaller E this installerPath w = (Inr root, w')"
  shows "mod_type root = NeoForgeHosted
       \<and> mod_name root = ''Minecraft NeoForge (universal jar)''
       \<and> mod_id root = Some (mavenComponentsToIdentifier (mavenUtil E)
                               (NEOFORGE_GROUP (libRepo E)) (NEOFORGE_ARTIFACT (libRepo E))
                               None (Some ''universal'') None)
       \<and> (\<exists>vm ms libs vmf dir w1 w2.
             subModules root = Some (vm # ms @ libs)
           \<and> mod_type vm = VersionManifest
           \<and> mod_name vm = ''Minecraft NeoForge (version.json)''
           \<and> map mod_name ms
               = [''Minecraft NeoForge (client jar)'', ''Minecraft NeoForge (client shim)'',
                  ''Minecraft NeoForge (fmlcore)'', ''Minecraft NeoForge (javafmllanguage)'',
                  ''Minecraft NeoForge (mclanguage)'', ''Minecraft NeoForge (lowcodelanguage)'']
           \<and> map mod_type ms = [Library, Library, Library, Library, Library, Library]
           \<and> processLibraries E this vmf dir w1 = (Inr libs, w2))"
proof -
  from new_gradle3 [OF n] obtain this0 where
    t: "this = configure E this0" "artifactVersion this0 = None"
       "generatedFiles this0 = None" "wildcardsInUse this0 = None"
    by blast
  from processWithInstaller_Inr [OF p] obtain dir w2 vmf vm w3 m this' w4 libs w5 where
    s: "processVersionManifest E this dir w2 = (Inr (vmf, vm), w3)"
       "processNeoForgeModule E this vmf dir w3 = (Inr (m, this'), w4)"
       "processLibraries E this' vmf dir w4 = (Inr libs, w5)"
       "root = concat_subModules libs (unshift_subModule vm m)"
    by blast
  have x: "isExecutableJar (minecraftVersion this0)"
  proof (rule ccontr)
    assume "\<not> isExecutableJar (minecraftVersion this0)"
    from configure_otherwise_fails [OF this t(3,4,2), of E vmf dir w3] s(2) t(1)
    show False by simp
  qed
  let ?e1 = "\<lparr>gf_name = ''universal jar'', gf_group = NEOFORGE_GROUP (libRepo E),
              gf_artifact = NEOFORGE_ARTIFACT (libRepo E),
              gf_version = None,
              classifiers = [Some ''universal''], skipIfNotPresent = None,
              classpath = None\<rparr>"
  let ?Q = "\<lambda>e x. \<exists>c b s. c \<in> set (classifiers e) \<and> x = generatedModule E this e c b s"
  from configure_executable [OF x, of E] t(1,2,4) obtain rest where
    c: "generatedFiles this = Some (?e1 # rest)"
       "map gf_name rest = [''client jar'', ''client shim'', ''fmlcore'', ''javafmllanguage'',
                            ''mclanguage'', ''lowcodelanguage'']"
       "list_all (\<lambda>e. skipIfNotPresent e = None) rest"
       "wildcardsInUse this = None"
    by auto
  from processNeoForgeModule_root [OF s(2)] c(4) obtain gfs y ys where
    r: "this' = this" "generatedFiles this = Some gfs"
       "generatedFilesLoop E this (join dir ''libraries'') gfs [] w3 = (Inr (y # ys), w4)"
       "m = set_subModules (Some ys) (set_type NeoForgeHosted y)"
    by auto
  from r(2) c(1) have gfs: "gfs = ?e1 # rest" by simp
  from generatedFilesLoop_emitted [OF r(3)] obtain per where
    per: "y # ys = concat per"
         "list_all2 (\<lambda>e xs. (xs = [] \<and> skipIfNotPresent e = Some True)
                         \<or> (\<exists>c b s. c \<in> set (classifiers e)
                                \<and> xs = [generatedModule E this e c b s])) gfs per"
    by auto
  have "list_all (\<lambda>e. skipIfNotPresent e = None) gfs"
    using c(3) gfs by simp
  from emitted_required [OF per(2) this] per(1) gfs
  have "list_all2 ?Q (?e1 # rest) (y # ys)"
    by simp
  then have q: "?Q ?e1 y" "list_all2 ?Q rest ys"
    by simp_all
  from q(1) obtain b st where y: "y = generatedModule E this ?e1 (Some ''universal'') b st"
    by auto
  have nm: "map (\<lambda>e. ''Minecraft NeoForge ('' @ gf_name e @ '')'') rest
              = map (\<lambda>n. ''Minecraft NeoForge ('' @ n @ '')'') (map gf_name rest)"
    by (simp add: comp_def)
  from emitted_names [OF q(2), THEN conjunct1, unfolded nm c(2)]
  have a5: "map mod_name ys
               = [''Minecraft NeoForge (client jar)'', ''Minecraft NeoForge (client shim)'',
                  ''Minecraft NeoForge (fmlcore)'', ''Minecraft NeoForge (javafmllanguage)'',
                  ''Minecraft NeoForge (mclanguage)'', ''Minecraft NeoForge (lowcodelanguage)'']"
    by simp
  from arg_cong [OF c(2), of length] have len: "length rest = 6" by simp
  from emitted_names [OF q(2), THEN conjunct2]
  have a6: "map mod_type ys = [Library, Library, Library, Library, Library, Library]"
    by (simp add: map_replicate_const len eval_nat_numeral)
  from processVersionManifest_module [OF s(1)]
  have vm: "mod_type vm = VersionManifest" "mod_name vm = ''Minecraft NeoForge (version.json)''"
    by simp_all
  have root: "root = Module (mod_id y) (mod_name y) NeoForgeHosted (mod_classpath y)
                       (mod_artifact y) (Some (vm # ys @ libs))"
    by (simp add: s(4) r(4) concat_subModules_def unshift_subModule_def set_subModules_def
        set_type_def)
  have a1: "mod_type root = NeoForgeHosted" by (simp add: root)
  have a2: "mod_name root = ''Minecraft NeoForge (universal jar)''"
    by (simp add: root y generatedModule_def)
  have a3: "mod_id root = Some (mavenComponentsToIdentifier (mavenUtil E)
                               (NEOFORGE_GROUP (libRepo E)) (NEOFORGE_ARTIFACT (libRepo E))
                               None (Some ''universal'') None)"
    by (simp add: root y generatedModule_def)
  have a4: "subModules root = Some (vm # ys @ libs)" by (simp add: root)
  from s(3) r(1) have a7: "processLibraries E this vmf dir w4 = (Inr libs, w5)" by simp
  from a4 vm a5 a6 a7
  have "\<exists>vm ms libs vmf dir w1 w2.
             subModules root = Some (vm # ms @ libs)
           \<and> mod_type vm = VersionManifest
           \<and> mod_name vm = ''Minecraft NeoForge (version.json)''
           \<and> map mod_name ms
               = [''Minecraft NeoForge (client jar)'', ''Minecraft NeoForge (client shim)'',
                  ''Minecraft NeoForge (fmlcore)'', ''Minecraft NeoForge (javafmllanguage)'',
                  ''Minecraft NeoForge (mclanguage)'', ''Minecraft NeoForge (lowcodelanguage)'']
           \<and> map mod_type ms = [Library, Library, Library, Library, Library, Library]
           \<and> processLibraries E this vmf dir w1 = (Inr libs, w2)"
    by (intro exI [of _ vm] exI [of _ ys] exI [of _ libs] exI [of _ vmf] exI [of _ dir]
              exI [of _ w4] exI [of _ w5]) simp
  with a1 a2 a3 show ?thesis by (intro conjI)
qed

lemma installer_tree:
  assumes "processWithInstaller E this installerPath w = (Inr root, w')"
  shows "\<exists>this' gfs x xs vm libs vmf dir w1 w2 w3 w4 w5.
           processVersionManifest E this dir w1 = (Inr (vmf, vm), w2)
         \<and> generatedFiles this' = Some gfs
         \<and> generatedFilesLoop E this' (join dir ''libraries'') gfs [] w3 = (Inr (x # xs), w4)
         \<and> processLibraries E this' vmf dir w4 = (Inr libs, w5)
         \<and> root = Module (mod_id x) (mod_name x) NeoForgeHosted (mod_classpath x)
                    (mod_artifact x) (Some (vm # xs @ libs))"
proof -
  from processWithInstaller_Inr [OF assms] obtain dir w2 vmf vm w3 m this' w4 libs w5 where
    s: "processVersionManifest E this dir w2 = (Inr (vmf, vm), w3)"
       "processNeoForgeModule E this vmf dir w3 = (Inr (m, this'), w4)"
       "processLibraries E this' vmf dir w4 = (Inr libs, w5)"
       "root = concat_subModules libs (unshift_subModule vm m)"
    by blast
  from processNeoForgeModule_root [OF s(2)] obtain gfs x xs v1 where
    r: "generatedFiles this' = Some gfs"
       "generatedFilesLoop E this' (join dir ''libraries'') gfs [] v1 = (Inr (x # xs), w4)"
       "m = set_subModules (Some xs) (set_type NeoForgeHosted x)"
    by blast
  have "root = Module (mod_id x) (mod_name x) NeoForgeHosted (mod_classpath x)
                    (mod_artifact x) (Some (vm # xs @ libs))"
    by (simp add: s(4) r(3) concat_subModules_def unshift_subModule_def set_subModules_def
        set_type_def)
  with s(1,3) r(1,2) show ?thesis
    by (intro exI [of _ this'] exI [of _ gfs] exI [of _ x] exI [of _ xs] exI [of _ vm]
              exI [of _ libs] exI [of _ vmf] exI [of _ dir] exI [of _ w2] exI [of _ w3]
              exI [of _ v1] exI [of _ w4] exI [of _ w5]) simp
qed

text \<open>
  Claim C4, as amended. In the installer-mediated path the module list of the
  reconciliation holds one module per resolved expected-file entry, in table order. A run
  that returns answers the first of them as the root, with its type set to the
  loader-root type, and the root's children are: first the version-manifest module, then
  the modules of the remaining resolved entries, then the library modules. For a resolver
  that its constructor built, a run that returns has the module of the loader's universal
  jar as its root, and the remaining entries are the six other entries of the table for
  1.20.3 and later.
\<close>

theorem installer_root_then_manifest_entries_libraries:
  "(processWithInstaller E this installerPath w = (Inr root, w') \<longrightarrow>
      (\<exists>this' gfs x xs vm libs vmf dir w1 w2 w3 w4 w5.
           processVersionManifest E this dir w1 = (Inr (vmf, vm), w2)
         \<and> generatedFiles this' = Some gfs
         \<and> generatedFilesLoop E this' (join dir ''libraries'') gfs [] w3 = (Inr (x # xs), w4)
         \<and> processLibraries E this' vmf dir w4 = (Inr libs, w5)
         \<and> root = Module (mod_id x) (mod_name x) NeoForgeHosted (mod_classpath x)
                    (mod_artifact x) (Some (vm # xs @ libs))))
   \<and> (new E NeoForgeGradle3Adapter absRoot relRoot url mv nv discard invalidate
         = Inr (Gradle3 this, out) \<longrightarrow>
      processWithInstaller E this installerPath w = (Inr root, w') \<longrightarrow>
         mod_type root = NeoForgeHosted
       \<and> mod_name root = ''Minecraft NeoForge (universal jar)''
       \<and> mod_id root = Some (mavenComponentsToIdentifier (mavenUtil E)
                               (NEOFORGE_GROUP (libRepo E)) (NEOFORGE_ARTIFACT (libRepo E))
                               None (Some ''universal'') None)
       \<and> (\<exists>vm ms libs vmf dir w1 w2.
             subModules root = Some (vm # ms @ libs)
           \<and> mod_type vm = VersionManifest
           \<and> mod_name vm = ''Minecraft NeoForge (version.json)''
           \<and> map mod_name ms
               = [''Minecraft NeoForge (client jar)'', ''Minecraft NeoForge (client shim)'',
                  ''Minecraft NeoForge (fmlcore)'', ''Minecraft NeoForge (javafmllanguage)'',
                  ''Minecraft NeoForge (mclanguage)'', ''Minecraft NeoForge (lowcodelanguage)'']
           \<and> map mod_type ms = [Library, Library, Library, Library, Library, Library]
           \<and> processLibraries E this vmf dir w1 = (Inr libs, w2)))"
  (is "?general \<and> ?constructed")
proof
  show ?general by (intro impI) (rule installer_tree)
  show ?constructed by (intro impI) (rule installer_root, assumption+)
qed

text \<open>
  The claim as stated fails where it puts the version-manifest module after the remaining
  entries: \<^verbatim>\<open>unshift\<close> puts it in front of them. Here the resolver that the constructor
  builds for game version 1.20.4 runs on the cached output of the installer.
\<close>

theorem version_manifest_module_is_first_child:
  "new env0 NeoForgeGradle3Adapter ''/repo'' ''repo'' ''http://host/'' mc_1_20_4 ''20.4.80'' False False
     = Inr (Gradle3 gradle3_1_20_4, [])
   \<and> map_sum id (\<lambda>root. (mod_name root, map_option (map mod_name) (subModules root)))
        (fst (processWithInstaller env0 gradle3_1_20_4
                ''/repo/lib/net/neoforged/neoforge/undefined/neoforge-undefined-installer.jar''
                world_installed))
       = Inr (''Minecraft NeoForge (universal jar)'',
              Some [''Minecraft NeoForge (version.json)'',
                    ''Minecraft NeoForge (client jar)'',
                    ''Minecraft NeoForge (client shim)'',
                    ''Minecraft NeoForge (fmlcore)'',
                    ''Minecraft NeoForge (javafmllanguage)'',
                    ''Minecraft NeoForge (mclanguage)'',
                    ''Minecraft NeoForge (lowcodelanguage)'',
                    ''Minecraft NeoForge (neoforge)'',
                    ''Minecraft NeoForge (asm)''])"
proof -
  have "map_sum id (\<lambda>root. (mod_name root, map_option (map mod_name) (subModules root)))
        (fst (processWithInstaller env0 gradle3_1_20_4
                ''/repo/lib/net/neoforged/neoforge/undefined/neoforge-undefined-installer.jar''
                world_installed))
       = Inr (''Minecraft NeoForge (universal jar)'',
              Some [''Minecraft NeoForge (version.json)'',
                    ''Minecraft NeoForge (client jar)'',
                    ''Minecraft NeoForge (client shim)'',
                    ''Minecraft NeoForge (fmlcore)'',
                    ''Minecraft NeoForge (javafmllanguage)'',
                    ''Minecraft NeoForge (mclanguage)'',
                    ''Minecraft NeoForge (lowcodelanguage)'',
                    ''Minecraft NeoForge (neoforge)'',
                    ''Minecraft NeoForge (asm)''])"
    by code_simp
  with new_gradle3_1_20_4 show ?thesis by (intro conjI)
qed

text \<open>
  The amended statement at the same run: both hypotheses hold there, and the root and its
  first child are as the theorem says.
\<close>

theorem installer_root_then_manifest_entries_libraries_witness:
  "new env0 NeoForgeGradle3Adapter ''/repo'' ''repo'' ''http://host/'' mc_1_20_4 ''20.4.80'' False False
     = Inr (Gradle3 gradle3_1_20_4, [])
   \<and> (\<exists>root.
         fst (processWithInstaller env0 gradle3_1_20_4
                ''/repo/lib/net/neoforged/neoforge/undefined/neoforge-undefined-installer.jar''
                world_installed) = Inr root
       \<and> mod_type root = NeoForgeHosted
       \<and> mod_name root = ''Minecraft NeoForge (universal jar)''
       \<and> mod_id root = Some ''net.neoforged:neoforge:undefined:universal''
       \<and> (\<exists>vm ms libs.
             subModules root = Some (vm # ms @ libs)
           \<and> mod_type vm = VersionManifest
           \<and> mod_name vm = ''Minecraft NeoForge (version.json)''
           \<and> map mod_name ms
               = [''Minecraft NeoForge (client jar)'', ''Minecraft NeoForge (client shim)'',
                  ''Minecraft NeoForge (fmlcore)'', ''Minecraft NeoForge (javafmllanguage)'',
                  ''Minecraft NeoForge (mclanguage)'', ''Minecraft NeoForge (lowcodelanguage)''])
       \<and> (\<exists>x xs vm libs.
             root = Module (mod_id x) (mod_name x) NeoForgeHosted (mod_classpath x)
                      (mod_artifact x) (Some (vm # xs @ libs))))"
proof -
  let ?p = "''/repo/lib/net/neoforged/neoforge/undefined/neoforge-undefined-installer.jar''"
  let ?w' = "snd (processWithInstaller env0 gradle3_1_20_4 ?p world_installed)"
  have "case fst (processWithInstaller env0 gradle3_1_20_4 ?p world_installed) of
          Inl e \<Rightarrow> False | Inr root \<Rightarrow> True"
    by code_simp
  then obtain root where
    g: "fst (processWithInstaller env0 gradle3_1_20_4 ?p world_installed) = Inr root"
    by (cases "fst (processWithInstaller env0 gradle3_1_20_4 ?p world_installed)") simp_all
  then have g': "processWithInstaller env0 gradle3_1_20_4 ?p world_installed = (Inr root, ?w')"
    by (simp add: prod_eq_iff)
  have i: "mavenComponentsToIdentifier (mavenUtil env0)
             (NEOFORGE_GROUP (libRepo env0)) (NEOFORGE_ARTIFACT (libRepo env0))
             None (Some ''universal'') None = ''net.neoforged:neoforge:undefined:universal''"
    by code_simp
  note T = installer_root_then_manifest_entries_libraries
    [where E = env0 and this = gradle3_1_20_4 and installerPath = ?p and w = world_installed
       and root = root and w' = ?w' and absRoot = "''/repo''" and relRoot = "''repo''"
       and url = "''http://host/''" and mv = mc_1_20_4 and nv = "''20.4.80''"
       and discard = False and invalidate = False and out = "[]"]
  from T [THEN conjunct1, THEN mp, OF g']
  have a: "\<exists>x xs vm libs.
             root = Module (mod_id x) (mod_name x) NeoForgeHosted (mod_classpath x)
                      (mod_artifact x) (Some (vm # xs @ libs))"
    by blast
  note U = T [THEN conjunct2, THEN mp, THEN mp, OF new_gradle3_1_20_4 g', unfolded i]
  from U have b: "mod_type root = NeoForgeHosted"
    "mod_name root = ''Minecraft NeoForge (universal jar)''"
    "mod_id root = Some ''net.neoforged:neoforge:undefined:universal''"
    by simp_all
  from U [THEN conjunct2, THEN conjunct2, THEN conjunct2]
  have c: "\<exists>vm ms libs.
             subModules root = Some (vm # ms @ libs)
           \<and> mod_type vm = VersionManifest
           \<and> mod_name vm = ''Minecraft NeoForge (version.json)''
           \<and> map mod_name ms
               = [''Minecraft NeoForge (client jar)'', ''Minecraft NeoForge (client shim)'',
                  ''Minecraft NeoForge (fmlcore)'', ''Minecraft NeoForge (javafmllanguage)'',
                  ''Minecraft NeoForge (mclanguage)'', ''Minecraft NeoForge (lowcodelanguage)'']"
    by (elim exE conjE) (intro exI conjI, assumption+)
  have "\<exists>root.
         fst (processWithInstaller env0 gradle3_1_20_4 ?p world_installed) = Inr root
       \<and> mod_type root = NeoForgeHosted
       \<and> mod_name root = ''Minecraft NeoForge (universal jar)''
       \<and> mod_id root = Some ''net.neoforged:neoforge:undefined:universal''
       \<and> (\<exists>vm ms libs.
             subModules root = Some (vm # ms @ libs)
           \<and> mod_type vm = VersionManifest
           \<and> mod_name vm = ''Minecraft NeoForge (version.json)''
           \<and> map mod_name ms
               = [''Minecraft NeoForge (client jar)'', ''Minecraft NeoForge (client shim)'',
                  ''Minecraft NeoForge (fmlcore)'', ''Minecraft NeoForge (javafmllanguage)'',
                  ''Minecraft NeoForge (mclanguage)'', ''Minecraft NeoForge (lowcodelanguage)''])
       \<and> (\<exists>x xs vm libs.
             root = Module (mod_id x) (mod_name x) NeoForgeHosted (mod_classpath x)
                      (mod_artifact x) (Some (vm # xs @ libs)))"
    by (insert g b c a, rule exI [of _ root], intro conjI)
  with new_gradle3_1_20_4 show ?thesis by (intro conjI)
qed

end
